theory Spec2Isabelle
  imports Main "HOL-Library.Word" "HOL-Library.Char_ord" "HOL-Library.Code_Target_Nat"
begin

section \<open>Failures\<close>

text \<open>
  The functions of \<^verbatim>\<open>Param.cpp\<close> fail in two ways. A literal that a user wrote
  wrongly makes a parser store a message in its \<^verbatim>\<open>err\<close> argument and return zero;
  that is an ordinary result here. A broken internal invariant reaches a
  \<^verbatim>\<open>CHPL_ASSERT\<close>.

  Modelled from the spec: \<^verbatim>\<open>CHPL_ASSERT\<close> (its header is not among the sources) is
  fatal, "allowed to terminate the compilation process immediately"; the
  statements that follow a failed assertion in the source are therefore not part of
  the model. A failed assertion is the value \<open>Inl (AssertionFailure text)\<close>.
  A null pointer that the source dereferences without a check is
  \<open>Inl NullDereference\<close>, and an error of the constant evaluator is
  \<open>Inl (EvaluatorError text)\<close>.
\<close>

datatype error =
    AssertionFailure string
  | NullDereference
  | EvaluatorError string

section \<open>The literal parsers\<close>

subsection \<open>C strings\<close>

text \<open>
  A parser receives \<^verbatim>\<open>const char* str\<close> and \<^verbatim>\<open>size_t len\<close>. The model's
  \<open>str\<close> is the list of the \<open>len\<close> bytes of the buffer, \<open>len\<close> is its length, and the
  byte after them is the terminating NUL, so \<^verbatim>\<open>str[i]\<close> is \<open>charAt str i\<close>.
  The pointer is not null; in the source the null pointer takes the branch of the
  other broken preconditions.
\<close>

definition charAt :: "string \<Rightarrow> nat \<Rightarrow> char" where
  "charAt str i = (if i < length str then str ! i else CHR 0x00)"

text \<open>
  Modelled from the spec: \<^verbatim>\<open>stringContainsZeroBytes\<close> (declared in
  \<^verbatim>\<open>chpl/framework/UniqueString-detail.h\<close>, not among the sources) finds
  "embedded NUL bytes" among the \<open>len\<close> bytes.
\<close>

definition stringContainsZeroBytes :: "string \<Rightarrow> bool" where
  "stringContainsZeroBytes str = (CHR 0x00 \<in> set str)"

text \<open>The two messages that the parsers assemble with \<^verbatim>\<open>err += ...\<close>.\<close>

definition overflowMsg :: "string \<Rightarrow> string" where
  "overflowMsg str =
     ''Integer literal overflow: '' @ [CHR 0x27] @ str @ [CHR 0x27] @
     '' is too big for a 64-bit unsigned integer''"

definition illegalMsg :: "char \<Rightarrow> string \<Rightarrow> string" where
  "illegalMsg c radix =
     ''illegal character '' @ [CHR 0x27] @ [c] @ [CHR 0x27] @ '' in '' @ radix @ '' literal''"

text \<open>
  \<^verbatim>\<open>while (str[startPos] == '0' && startPos < len-1) startPos++;\<close>
  The subtraction is on \<^verbatim>\<open>size_t\<close>; every parser has rejected the empty buffer
  before the loop, so it does not wrap.
\<close>

function skipZeros :: "string \<Rightarrow> nat \<Rightarrow> nat" where
  "skipZeros str startPos =
     (if charAt str startPos = CHR ''0'' \<and> startPos < length str - 1
      then skipZeros str (startPos + 1)
      else startPos)"
  by pat_completeness auto
termination
  by (relation "measure (\<lambda>(str, startPos). length str - 1 - startPos)") auto

declare skipZeros.simps [simp del]

text \<open>
  \<^verbatim>\<open>while (str[startPos] == '-' && startPos < len-1) { negate = !negate; startPos++; }\<close>
\<close>

function skipMinus :: "string \<Rightarrow> nat \<Rightarrow> bool \<Rightarrow> nat \<times> bool" where
  "skipMinus str startPos negate =
     (if charAt str startPos = CHR ''-'' \<and> startPos < length str - 1
      then skipMinus str (startPos + 1) (\<not> negate)
      else (startPos, negate))"
  by pat_completeness auto
termination
  by (relation "measure (\<lambda>(str, startPos, negate). length str - 1 - startPos)") auto

declare skipMinus.simps [simp del]

subsection \<open>The C library's conversions\<close>

text \<open>
  \<^verbatim>\<open>sscanf\<close> with \<^verbatim>\<open>SCNo64\<close>, \<^verbatim>\<open>SCNu64\<close>, \<^verbatim>\<open>SCNx64\<close> and \<^verbatim>\<open>SCNd64\<close> reads the
  longest run of digits of the radix at the start of the text and stops at the first
  other character; with no digit at all nothing is converted and the call does not
  return 1. A value too large for the target saturates (the GNU C library; the C
  standard leaves it open). The parsers call \<^verbatim>\<open>sscanf\<close> only behind their
  validation loop, so the text holds no white space, sign or radix prefix, and these
  parts of the conversion are left out.
\<close>

definition digitValue :: "char \<Rightarrow> nat" where
  "digitValue c =
     (if CHR ''0'' \<le> c \<and> c \<le> CHR ''9'' then of_char c - 48
      else if CHR ''a'' \<le> c \<and> c \<le> CHR ''f'' then of_char c - 87
      else if CHR ''A'' \<le> c \<and> c \<le> CHR ''F'' then of_char c - 55
      else 16)"

definition isDigitOf :: "nat \<Rightarrow> char \<Rightarrow> bool" where
  "isDigitOf radix c = (digitValue c < radix)"

definition digitsValue :: "nat \<Rightarrow> string \<Rightarrow> nat" where
  "digitsValue radix ds = foldl (\<lambda>acc c. acc * radix + digitValue c) 0 ds"

definition sscanf_u64 :: "nat \<Rightarrow> string \<Rightarrow> 64 word option" where
  "sscanf_u64 radix s =
     (let ds = takeWhile (isDigitOf radix) s
      in if ds = [] then None
         else Some (word_of_nat (min (digitsValue radix ds) (2 ^ 64 - 1))))"

definition sscanf_d64 :: "string \<Rightarrow> 64 word option" where
  "sscanf_d64 s =
     (let ds = takeWhile (isDigitOf 10) s
      in if ds = [] then None
         else Some (word_of_nat (min (digitsValue 10 ds) (2 ^ 63 - 1))))"

text \<open>
  \<^verbatim>\<open>snprintf(checkStr, len+1, "%" SCNu64, val)\<close> writes the decimal digits of the
  unsigned value, at most \<open>len\<close> of them.
\<close>

fun decimalDigits :: "nat \<Rightarrow> string" where
  "decimalDigits n =
     (if n < 10 then [''0123456789'' ! n]
      else decimalDigits (n div 10) @ [''0123456789'' ! (n mod 10)])"

declare decimalDigits.simps [simp del]

definition snprintf_u64 :: "nat \<Rightarrow> 64 word \<Rightarrow> string" where
  "snprintf_u64 len val = take len (decimalDigits (unat val))"

subsection \<open>Binary\<close>

text \<open>
  The loop of \<^verbatim>\<open>binStr2uint64\<close> over the characters from \<open>startPos\<close> on:
  \<^verbatim>\<open>val <<= 1\<close>, then \<^verbatim>\<open>'0'\<close> adds nothing, \<^verbatim>\<open>'1'\<close> adds one, and any other
  character ends the parser with that character (\<open>Inl\<close>).
\<close>

fun binLoop :: "64 word \<Rightarrow> string \<Rightarrow> char + 64 word" where
  "binLoop val [] = Inr val"
| "binLoop val (c # cs) =
     (if c = CHR ''0'' then binLoop (push_bit 1 val) cs
      else if c = CHR ''1'' then binLoop (push_bit 1 val + 1) cs
      else Inl c)"

definition binStr2uint64 :: "string \<Rightarrow> string \<Rightarrow> error + (64 word \<times> string)" where
  "binStr2uint64 str err =
     (if charAt str 0 = CHR ''0'' \<and> (charAt str 1 = CHR ''b'' \<or> charAt str 1 = CHR ''B'') \<and>
         \<not> stringContainsZeroBytes str
      then
        if length str < 3 then Inl (AssertionFailure ''len >= 3'')
        else
          let startPos = skipZeros str 2 in
          if length str - startPos > 64 then Inr (0, overflowMsg str)
          else
            case binLoop 0 (drop startPos str) of
              Inl c \<Rightarrow> Inr (0, illegalMsg c ''binary'')
            | Inr val \<Rightarrow> Inr (val, err)
      else Inl (AssertionFailure ''should not be reached''))"

subsection \<open>Octal\<close>

text \<open>
  The validation loop of \<^verbatim>\<open>octStr2uint64\<close> accepts a character when
  \<^verbatim>\<open>'0' <= str[i] && str[i] <= '8'\<close>. Whether \<^verbatim>\<open>char\<close> is signed makes no
  difference to this test: a byte above 127 fails one side or the other.
\<close>

definition octStr2uint64 :: "string \<Rightarrow> string \<Rightarrow> error + (64 word \<times> string)" where
  "octStr2uint64 str err =
     (if charAt str 0 = CHR ''0'' \<and> (charAt str 1 = CHR ''o'' \<or> charAt str 1 = CHR ''O'') \<and>
         \<not> stringContainsZeroBytes str
      then
        let startPos = skipZeros str 2 in
        if length str - startPos > 22 \<or>
           (length str - startPos = 22 \<and> charAt str startPos \<noteq> CHR ''1'')
        then Inr (0, overflowMsg str)
        else
          case find (\<lambda>c. \<not> (CHR ''0'' \<le> c \<and> c \<le> CHR ''8'')) (drop startPos str) of
            Some c \<Rightarrow> Inr (0, illegalMsg c ''octal'')
          | None \<Rightarrow>
              (case sscanf_u64 8 (drop startPos str) of
                 None \<Rightarrow> Inr (0, ''error converting octal literal'')
               | Some val \<Rightarrow> Inr (val, err))
      else Inl (AssertionFailure ''should not be reached''))"

subsection \<open>Decimal\<close>

text \<open>
  Both decimal parsers check for overflow by writing the parsed value back as text:
  \<^verbatim>\<open>strcmp(str+startPos, checkStr) != 0\<close> is the overflow error.
  \<^verbatim>\<open>decStr2uint64\<close> keeps the value in an \<^verbatim>\<open>int64_t\<close> but reads and writes it
  with the unsigned conversions, so only its 64 bits matter.
\<close>

definition decStr2uint64 :: "string \<Rightarrow> string \<Rightarrow> error + (64 word \<times> string)" where
  "decStr2uint64 str err =
     (if charAt str 0 \<noteq> CHR 0x00 \<and> \<not> stringContainsZeroBytes str
      then
        let startPos = skipZeros str 0 in
        case find (\<lambda>c. \<not> (CHR ''0'' \<le> c \<and> c \<le> CHR ''9'')) (drop startPos str) of
          Some c \<Rightarrow> Inr (0, illegalMsg c ''decimal'')
        | None \<Rightarrow>
            (case sscanf_u64 10 (drop startPos str) of
               None \<Rightarrow> Inr (0, ''error converting decimal literal'')
             | Some val \<Rightarrow>
                 if drop startPos str \<noteq> snprintf_u64 (length str) val
                 then Inr (0, overflowMsg str)
                 else Inr (val, err))
      else Inl (AssertionFailure ''should not be reached''))"

text \<open>
  \<^verbatim>\<open>decStr2int64\<close> returns an \<^verbatim>\<open>int64_t\<close>: the word read with \<open>sint\<close>.
\<close>

definition decStr2int64 :: "string \<Rightarrow> string \<Rightarrow> error + (64 word \<times> string)" where
  "decStr2int64 str err =
     (if charAt str 0 \<noteq> CHR 0x00 \<and> \<not> stringContainsZeroBytes str
      then
        let (minusPos, negate) = skipMinus str 0 False;
            startPos = skipZeros str minusPos in
        case find (\<lambda>c. \<not> (CHR ''0'' \<le> c \<and> c \<le> CHR ''9'')) (drop startPos str) of
          Some c \<Rightarrow> Inr (0, illegalMsg c ''decimal'')
        | None \<Rightarrow>
            (case sscanf_d64 (drop startPos str) of
               None \<Rightarrow> Inr (0, ''error converting decimal literal'')
             | Some val \<Rightarrow>
                 if drop startPos str \<noteq> snprintf_u64 (length str) val
                 then Inr (0, overflowMsg str)
                 else if negate then Inr (- val, err) else Inr (val, err))
      else Inl (AssertionFailure ''should not be reached''))"

subsection \<open>Hexadecimal\<close>

text \<open>
  \<^verbatim>\<open>hexStr2uint64\<close> converts from \<^verbatim>\<open>str+2\<close>, the skipped zeros included.
\<close>

definition isHexChar :: "char \<Rightarrow> bool" where
  "isHexChar c =
     ((CHR ''0'' \<le> c \<and> c \<le> CHR ''9'') \<or>
      (CHR ''a'' \<le> c \<and> c \<le> CHR ''f'') \<or>
      (CHR ''A'' \<le> c \<and> c \<le> CHR ''F''))"

definition hexStr2uint64 :: "string \<Rightarrow> string \<Rightarrow> error + (64 word \<times> string)" where
  "hexStr2uint64 str err =
     (if charAt str 0 = CHR ''0'' \<and> (charAt str 1 = CHR ''x'' \<or> charAt str 1 = CHR ''X'') \<and>
         \<not> stringContainsZeroBytes str
      then
        if length str < 3 then Inl (AssertionFailure ''len >= 3'')
        else
          let startPos = skipZeros str 2 in
          if length str - startPos > 16 then Inr (0, overflowMsg str)
          else
            case find (\<lambda>c. \<not> isHexChar c) (drop startPos str) of
              Some c \<Rightarrow> Inr (0, illegalMsg c ''hexadecimal'')
            | None \<Rightarrow>
                (case sscanf_u64 16 (drop 2 str) of
                   None \<Rightarrow> Inr (0, ''error converting hexadecimal literal'')
                 | Some val \<Rightarrow> Inr (val, err))
      else Inl (AssertionFailure ''should not be reached''))"

section \<open>Types, params and immediates\<close>

subsection \<open>The collaborators of the folding engine\<close>

text \<open>
  Modelled from the spec: the type system is consumed through "per-kind width queries
  (\<^verbatim>\<open>bitwidth()\<close>), kind predicates (\<^verbatim>\<open>isIntType\<close>, \<^verbatim>\<open>isBoolType\<close>, etc.), and
  canonical singleton accessors (\<^verbatim>\<open>IntType::get(context, width)\<close>, etc.)"; its
  classes are not among the sources. A \<^verbatim>\<open>const Type*\<close> is the type it points to,
  the null pointer is \<open>None\<close>. \<open>UnknownType\<close> and \<open>OtherType\<close> stand for the types
  that none of the kind predicates used in \<^verbatim>\<open>Param.cpp\<close> accepts.
\<close>

datatype Type =
    BoolType
  | IntType nat
  | UintType nat
  | RealType nat
  | ImagType nat
  | ComplexType nat
  | StringType
  | BytesType
  | CStringType
  | NothingType
  | UnknownType
  | OtherType

text \<open>
  \<^verbatim>\<open>float\<close> and \<^verbatim>\<open>double\<close> are their IEEE 754 bit patterns. The integers of
  the params are \<^verbatim>\<open>int64_t\<close> and \<^verbatim>\<open>uint64_t\<close>, both \<open>64 word\<close>: \<open>sint\<close> reads
  the first, \<open>unat\<close> the second.
\<close>

type_synonym float = "32 word"
type_synonym double = "64 word"

text \<open>
  The conversion of a \<^verbatim>\<open>double\<close> to \<^verbatim>\<open>float\<close> (round to nearest, ties to even)
  and back (exact), as the C++ assignments in \<^verbatim>\<open>paramToImmediate\<close> and
  \<^verbatim>\<open>immediateToParam\<close> perform them.
\<close>

definition roundHalfEven :: "nat \<Rightarrow> nat \<Rightarrow> nat" where
  "roundHalfEven sig shift =
     (let q = sig div 2 ^ shift; r = sig mod 2 ^ shift; half = 2 ^ (shift - 1)
      in if r > half \<or> (r = half \<and> odd q) then q + 1 else q)"

definition toFloat :: "double \<Rightarrow> float" where
  "toFloat d =
     (let n = unat d; s = n div 2 ^ 63; e = (n div 2 ^ 52) mod 2048; m = n mod 2 ^ 52
      in of_nat (s * 2 ^ 31 +
           (if e = 2047 then
              if m = 0 then 255 * 2 ^ 23
              else 255 * 2 ^ 23 + 2 ^ 22 + (m div 2 ^ 29) mod 2 ^ 22
            else if e = 0 then 0
            else min (255 * 2 ^ 23)
                   ((max (e - 896) 1 - 1) * 2 ^ 23 +
                    roundHalfEven (2 ^ 52 + m) (max 29 (926 - e))))))"

fun bitLength :: "nat \<Rightarrow> nat" where
  "bitLength n = (if n = 0 then 0 else 1 + bitLength (n div 2))"

declare bitLength.simps [simp del]

definition toDouble :: "float \<Rightarrow> double" where
  "toDouble f =
     (let n = unat f; s = n div 2 ^ 31; e = (n div 2 ^ 23) mod 256; m = n mod 2 ^ 23
      in of_nat (s * 2 ^ 63 +
           (if e = 255 then
              if m = 0 then 2047 * 2 ^ 52
              else 2047 * 2 ^ 52 + 2 ^ 51 + (m * 2 ^ 29) mod 2 ^ 51
            else if e = 0 then
              if m = 0 then 0
              else (bitLength m + 872) * 2 ^ 52 + m * 2 ^ (53 - bitLength m)
            else (e + 896) * 2 ^ 52 + m * 2 ^ 29)))"

text \<open>
  The params, one class per line of \<^verbatim>\<open>param-classes-list.h\<close>; the tags are those
  of the \<^verbatim>\<open>switch\<close> in \<^verbatim>\<open>paramToImmediate\<close>. A \<^verbatim>\<open>UniqueString\<close> and the
  \<^verbatim>\<open>ImmString\<close> made from it are the text they hold. The value of an
  \<^verbatim>\<open>EnumParam\<close> is never looked at; it is the name of its constant.

  Every \<^verbatim>\<open>X::get(context, v)\<close> returns the one instance that the context keeps
  for \<open>v\<close> (section Interning). In the folding engine a \<^verbatim>\<open>const Param*\<close> is
  therefore the param value it points to, and the null pointer is \<open>None\<close>.
\<close>

datatype EnumValue = EnumValue string

datatype ComplexDouble = ComplexDouble (re: double) (im: double)

datatype Param =
    BoolParam bool
  | ComplexParam ComplexDouble
  | EnumParam EnumValue
  | IntParam "64 word"
  | NoneParam
  | RealParam double
  | StringParam string
  | UintParam "64 word"

datatype ParamTag =
    paramtags_BoolParam
  | paramtags_ComplexParam
  | paramtags_EnumParam
  | paramtags_IntParam
  | paramtags_NoneParam
  | paramtags_RealParam
  | paramtags_StringParam
  | paramtags_UintParam

fun tag :: "Param \<Rightarrow> ParamTag" where
  "tag (BoolParam v) = paramtags_BoolParam"
| "tag (ComplexParam v) = paramtags_ComplexParam"
| "tag (EnumParam v) = paramtags_EnumParam"
| "tag (IntParam v) = paramtags_IntParam"
| "tag NoneParam = paramtags_NoneParam"
| "tag (RealParam v) = paramtags_RealParam"
| "tag (StringParam v) = paramtags_StringParam"
| "tag (UintParam v) = paramtags_UintParam"

text \<open>
  Modelled from the spec: \<^verbatim>\<open>contentsMatchInner\<close> (generated in \<^verbatim>\<open>Param.h\<close>, not
  among the sources) is the "kind-specific payload comparison (bit-exact for
  integers/bool, defined equality for floating/complex, exact text equality for
  strings)". The spec does not say which equality is defined for floating values, so
  the comparison of two \<^verbatim>\<open>double\<close> is the argument \<open>floatEq\<close>; a complex value is
  compared part by part. \<^verbatim>\<open>completeMatch\<close> calls it on two params of one tag
  only.
\<close>

fun contentsMatchInner :: "(double \<Rightarrow> double \<Rightarrow> bool) \<Rightarrow> Param \<Rightarrow> Param \<Rightarrow> bool" where
  "contentsMatchInner floatEq (BoolParam a) (BoolParam b) = (a = b)"
| "contentsMatchInner floatEq (ComplexParam a) (ComplexParam b) =
     (floatEq (re a) (re b) \<and> floatEq (im a) (im b))"
| "contentsMatchInner floatEq (EnumParam a) (EnumParam b) = (a = b)"
| "contentsMatchInner floatEq (IntParam a) (IntParam b) = (a = b)"
| "contentsMatchInner floatEq NoneParam NoneParam = True"
| "contentsMatchInner floatEq (RealParam a) (RealParam b) = floatEq a b"
| "contentsMatchInner floatEq (StringParam a) (StringParam b) = (a = b)"
| "contentsMatchInner floatEq (UintParam a) (UintParam b) = (a = b)"
| "contentsMatchInner floatEq lhs rhs = False"

definition completeMatch :: "(double \<Rightarrow> double \<Rightarrow> bool) \<Rightarrow> Param \<Rightarrow> Param \<Rightarrow> bool" where
  "completeMatch floatEq lhs rhs =
     (if tag lhs \<noteq> tag rhs then False
      else if \<not> contentsMatchInner floatEq lhs rhs then False
      else True)"

text \<open>
  One such equality is the comparison \<^verbatim>\<open>==\<close> of the language on two
  \<^verbatim>\<open>double\<close>, here on their bit patterns: a NaN equals nothing, not even itself,
  and the two zeros equal each other.
\<close>

definition isNaN :: "double \<Rightarrow> bool" where
  "isNaN d = ((unat d div 2 ^ 52) mod 2048 = 2047 \<and> unat d mod 2 ^ 52 \<noteq> 0)"

definition ieeeEqual :: "double \<Rightarrow> double \<Rightarrow> bool" where
  "ieeeEqual a b =
     (\<not> isNaN a \<and> \<not> isNaN b \<and>
      (a = b \<or> (unat a mod 2 ^ 63 = 0 \<and> unat b mod 2 ^ 63 = 0)))"

text \<open>
  Modelled from the spec: the \<^verbatim>\<open>Immediate\<close> (declared in
  \<^verbatim>\<open>immediates/num.h\<close>, not among the sources) is a "tagged union" of "a coarse
  kind", "a width selector" and a payload that "is exactly one of" the listed
  members, "discriminant and payload always consistent". Each constructor is one
  consistent setting of \<^verbatim>\<open>const_kind\<close>, \<^verbatim>\<open>num_index\<close> or \<^verbatim>\<open>string_kind\<close>, and
  the union member that goes with it; \<open>Imm_none\<close> is every other setting, the one
  of a fresh \<^verbatim>\<open>Immediate\<close> among them.
\<close>

datatype StringKind = STRING_KIND_STRING | STRING_KIND_BYTES | STRING_KIND_C_STRING

datatype Immediate =
    Imm_bool bool
  | Imm_int8 "8 word"
  | Imm_int16 "16 word"
  | Imm_int32 "32 word"
  | Imm_int64 "64 word"
  | Imm_uint8 "8 word"
  | Imm_uint16 "16 word"
  | Imm_uint32 "32 word"
  | Imm_uint64 "64 word"
  | Imm_real32 float
  | Imm_real64 double
  | Imm_imag32 float
  | Imm_imag64 double
  | Imm_complex64 float float
  | Imm_complex128 double double
  | Imm_string StringKind string
  | Imm_none

text \<open>
  Modelled from the spec: a \<^verbatim>\<open>QualifiedType\<close> (its header is not among the
  sources) is "a triple of (qualifier, Type*, Param*)". \<^verbatim>\<open>isUnknown\<close> holds of an
  operand that was left out: one with no type, or with the unknown type.
\<close>

datatype Qualifier = UNKNOWN | PARAM | OtherQualifier nat

record QualifiedType =
  qt_kind :: Qualifier
  qt_type :: "Type option"
  qt_param :: "Param option"

definition hasTypePtr :: "QualifiedType \<Rightarrow> bool" where
  "hasTypePtr q = (qt_type q \<noteq> None)"

definition hasParamPtr :: "QualifiedType \<Rightarrow> bool" where
  "hasParamPtr q = (qt_param q \<noteq> None)"

definition isUnknown :: "QualifiedType \<Rightarrow> bool" where
  "isUnknown q = (qt_type q = None \<or> qt_type q = Some UnknownType)"

text \<open>
  The primitive operators: the tags that \<^verbatim>\<open>Param.cpp\<close> names, and \<open>PRIM_OTHER n\<close>
  for every other tag of the enumeration (its list is not among the sources).
\<close>

datatype PrimitiveTag =
    P_prim_pow
  | P_prim_mult
  | P_prim_div
  | P_prim_mod
  | P_prim_add
  | P_prim_subtract
  | P_prim_lsh
  | P_prim_rsh
  | P_prim_less
  | P_prim_lessorequal
  | P_prim_greater
  | P_prim_greaterorequal
  | P_prim_equal
  | P_prim_notequal
  | P_prim_and
  | P_prim_xor
  | P_prim_or
  | P_prim_land
  | P_prim_lor
  | P_prim_plus
  | P_prim_minus
  | P_prim_not
  | P_prim_lnot
  | P_prim_abs
  | P_prim_sqrt
  | PRIM_CAST
  | PRIM_OTHER nat

fun isParamOpFoldable :: "PrimitiveTag \<Rightarrow> bool" where
  "isParamOpFoldable P_prim_pow = True"
| "isParamOpFoldable P_prim_mult = True"
| "isParamOpFoldable P_prim_div = True"
| "isParamOpFoldable P_prim_mod = True"
| "isParamOpFoldable P_prim_add = True"
| "isParamOpFoldable P_prim_subtract = True"
| "isParamOpFoldable P_prim_lsh = True"
| "isParamOpFoldable P_prim_rsh = True"
| "isParamOpFoldable P_prim_less = True"
| "isParamOpFoldable P_prim_lessorequal = True"
| "isParamOpFoldable P_prim_greater = True"
| "isParamOpFoldable P_prim_greaterorequal = True"
| "isParamOpFoldable P_prim_equal = True"
| "isParamOpFoldable P_prim_notequal = True"
| "isParamOpFoldable P_prim_and = True"
| "isParamOpFoldable P_prim_xor = True"
| "isParamOpFoldable P_prim_or = True"
| "isParamOpFoldable P_prim_land = True"
| "isParamOpFoldable P_prim_lor = True"
| "isParamOpFoldable P_prim_plus = True"
| "isParamOpFoldable P_prim_minus = True"
| "isParamOpFoldable P_prim_not = True"
| "isParamOpFoldable P_prim_lnot = True"
| "isParamOpFoldable P_prim_abs = True"
| "isParamOpFoldable P_prim_sqrt = True"
| "isParamOpFoldable op = False"

section \<open>Between params and immediates\<close>

text \<open>
  Failure is passed on with \<open>bindE\<close>; \<^verbatim>\<open>t->...\<close> on a pointer is \<open>deref\<close>.
\<close>

definition bindE :: "error + 'a \<Rightarrow> ('a \<Rightarrow> error + 'b) \<Rightarrow> error + 'b" where
  "bindE m f = (case m of Inl e \<Rightarrow> Inl e | Inr x \<Rightarrow> f x)"

definition deref :: "'a option \<Rightarrow> error + 'a" where
  "deref p = (case p of None \<Rightarrow> Inl NullDereference | Some x \<Rightarrow> Inr x)"

text \<open>
  \<^verbatim>\<open>getImmediateValueOrEmpty\<close>: the value of the param, converted to the member's
  type on return, or the empty value when the pointer is null. The overloads differ
  in the empty value only.
\<close>

definition getImmediateValueOrEmpty :: "('v \<Rightarrow> 't) \<Rightarrow> 't \<Rightarrow> 'v option \<Rightarrow> 't" where
  "getImmediateValueOrEmpty conv emptyValue p =
     (case p of Some v \<Rightarrow> conv v | None \<Rightarrow> emptyValue)"

text \<open>
  The casts \<^verbatim>\<open>(const BoolParam*) p\<close> and the like: the value behind the pointer, or
  \<open>None\<close> for the null pointer. \<^verbatim>\<open>paramToImmediate\<close> casts only under the tag of
  \<open>p\<close>, so on a param of another class the casts are never used.
\<close>

definition asBoolParam :: "Param option \<Rightarrow> bool option" where
  "asBoolParam p = (case p of Some (BoolParam v) \<Rightarrow> Some v | _ \<Rightarrow> None)"

definition asComplexParam :: "Param option \<Rightarrow> ComplexDouble option" where
  "asComplexParam p = (case p of Some (ComplexParam v) \<Rightarrow> Some v | _ \<Rightarrow> None)"

definition asIntParam :: "Param option \<Rightarrow> 64 word option" where
  "asIntParam p = (case p of Some (IntParam v) \<Rightarrow> Some v | _ \<Rightarrow> None)"

definition asRealParam :: "Param option \<Rightarrow> double option" where
  "asRealParam p = (case p of Some (RealParam v) \<Rightarrow> Some v | _ \<Rightarrow> None)"

definition asStringParam :: "Param option \<Rightarrow> string option" where
  "asStringParam p = (case p of Some (StringParam v) \<Rightarrow> Some v | _ \<Rightarrow> None)"

definition asUintParam :: "Param option \<Rightarrow> 64 word option" where
  "asUintParam p = (case p of Some (UintParam v) \<Rightarrow> Some v | _ \<Rightarrow> None)"

fun guessParamTagFromType :: "Type \<Rightarrow> error + ParamTag" where
  "guessParamTagFromType BoolType = Inr paramtags_BoolParam"
| "guessParamTagFromType (ComplexType w) = Inr paramtags_ComplexParam"
| "guessParamTagFromType (IntType w) = Inr paramtags_IntParam"
| "guessParamTagFromType (UintType w) = Inr paramtags_UintParam"
| "guessParamTagFromType (RealType w) = Inr paramtags_RealParam"
| "guessParamTagFromType (ImagType w) = Inr paramtags_RealParam"
| "guessParamTagFromType StringType = Inr paramtags_StringParam"
| "guessParamTagFromType BytesType = Inr paramtags_StringParam"
| "guessParamTagFromType CStringType = Inr paramtags_StringParam"
| "guessParamTagFromType NothingType = Inr paramtags_NoneParam"
| "guessParamTagFromType t = Inl (AssertionFailure ''case not handled'')"

text \<open>The cases of the \<^verbatim>\<open>switch (tag)\<close> in \<^verbatim>\<open>paramToImmediate\<close> that look at the type.\<close>

definition complexCase :: "Param option \<Rightarrow> Type option \<Rightarrow> error + Immediate" where
  "complexCase p t =
     (let v = getImmediateValueOrEmpty id (ComplexDouble 0 0) (asComplexParam p) in
      bindE (deref t) (\<lambda>ty.
        case ty of
          ComplexType w \<Rightarrow>
            if w = 64 then Inr (Imm_complex64 (toFloat (re v)) (toFloat (im v)))
            else if w = 128 then Inr (Imm_complex128 (re v) (im v))
            else Inl (AssertionFailure ''case not handled'')
        | _ \<Rightarrow> Inl (AssertionFailure ''ct'')))"

definition intCase :: "Param option \<Rightarrow> Type option \<Rightarrow> error + Immediate" where
  "intCase p t =
     bindE (deref t) (\<lambda>ty.
       case ty of
         IntType w \<Rightarrow>
           if w = 8 then Inr (Imm_int8 (getImmediateValueOrEmpty ucast 0 (asIntParam p)))
           else if w = 16 then Inr (Imm_int16 (getImmediateValueOrEmpty ucast 0 (asIntParam p)))
           else if w = 32 then Inr (Imm_int32 (getImmediateValueOrEmpty ucast 0 (asIntParam p)))
           else if w = 64 then Inr (Imm_int64 (getImmediateValueOrEmpty id 0 (asIntParam p)))
           else Inl (AssertionFailure ''case not handled'')
       | _ \<Rightarrow> Inl (AssertionFailure ''it''))"

definition realCase :: "Param option \<Rightarrow> Type option \<Rightarrow> error + Immediate" where
  "realCase p t =
     bindE (deref t) (\<lambda>ty.
       case ty of
         RealType w \<Rightarrow>
           if w = 32 then Inr (Imm_real32 (getImmediateValueOrEmpty toFloat 0 (asRealParam p)))
           else if w = 64 then Inr (Imm_real64 (getImmediateValueOrEmpty id 0 (asRealParam p)))
           else Inl (AssertionFailure ''case not handled'')
       | ImagType w \<Rightarrow>
           if w = 32 then Inr (Imm_imag32 (getImmediateValueOrEmpty toFloat 0 (asRealParam p)))
           else if w = 64 then Inr (Imm_imag64 (getImmediateValueOrEmpty id 0 (asRealParam p)))
           else Inl (AssertionFailure ''case not handled'')
       | _ \<Rightarrow> Inl (AssertionFailure ''case not handled''))"

definition stringCase :: "Param option \<Rightarrow> Type option \<Rightarrow> error + Immediate" where
  "stringCase p t =
     (let v = getImmediateValueOrEmpty id [] (asStringParam p) in
      bindE (deref t) (\<lambda>ty.
        case ty of
          StringType \<Rightarrow> Inr (Imm_string STRING_KIND_STRING v)
        | BytesType \<Rightarrow> Inr (Imm_string STRING_KIND_BYTES v)
        | CStringType \<Rightarrow> Inr (Imm_string STRING_KIND_C_STRING v)
        | _ \<Rightarrow> Inl (AssertionFailure ''case not handled'')))"

definition uintCase :: "Param option \<Rightarrow> Type option \<Rightarrow> error + Immediate" where
  "uintCase p t =
     bindE (deref t) (\<lambda>ty.
       case ty of
         UintType w \<Rightarrow>
           if w = 8 then Inr (Imm_uint8 (getImmediateValueOrEmpty ucast 0 (asUintParam p)))
           else if w = 16 then Inr (Imm_uint16 (getImmediateValueOrEmpty ucast 0 (asUintParam p)))
           else if w = 32 then Inr (Imm_uint32 (getImmediateValueOrEmpty ucast 0 (asUintParam p)))
           else if w = 64 then Inr (Imm_uint64 (getImmediateValueOrEmpty id 0 (asUintParam p)))
           else Inl (AssertionFailure ''case not handled'')
       | _ \<Rightarrow> Inl (AssertionFailure ''ut''))"

text \<open>
  \<^verbatim>\<open>paramToImmediate(p, t)\<close>: the tag is that of \<open>p\<close>, or guessed from the type when
  \<open>p\<close> is null.
\<close>

definition paramToImmediate :: "Param option \<Rightarrow> Type option \<Rightarrow> error + Immediate" where
  "paramToImmediate p t =
     bindE (case p of
              Some q \<Rightarrow> Inr (tag q)
            | None \<Rightarrow> bindE (deref t) guessParamTagFromType)
       (\<lambda>tg.
          case tg of
            paramtags_BoolParam \<Rightarrow>
              Inr (Imm_bool (getImmediateValueOrEmpty id False (asBoolParam p)))
          | paramtags_ComplexParam \<Rightarrow> complexCase p t
          | paramtags_EnumParam \<Rightarrow> Inl (AssertionFailure ''case not handled'')
          | paramtags_IntParam \<Rightarrow> intCase p t
          | paramtags_NoneParam \<Rightarrow> Inr (Imm_bool False)
          | paramtags_RealParam \<Rightarrow> realCase p t
          | paramtags_StringParam \<Rightarrow> stringCase p t
          | paramtags_UintParam \<Rightarrow> uintCase p t)"

text \<open>
  \<^verbatim>\<open>immediateToParam(context, imm)\<close>: the signed members widen to \<^verbatim>\<open>int64_t\<close>
  with their sign, the unsigned ones without, and \<^verbatim>\<open>float\<close> widens to
  \<^verbatim>\<open>double\<close>.
\<close>

fun immediateToParam :: "Immediate \<Rightarrow> error + (Param \<times> Type)" where
  "immediateToParam (Imm_int8 v) = Inr (IntParam (scast v), IntType 8)"
| "immediateToParam (Imm_int16 v) = Inr (IntParam (scast v), IntType 16)"
| "immediateToParam (Imm_int32 v) = Inr (IntParam (scast v), IntType 32)"
| "immediateToParam (Imm_int64 v) = Inr (IntParam v, IntType 64)"
| "immediateToParam (Imm_bool v) = Inr (BoolParam v, BoolType)"
| "immediateToParam (Imm_string STRING_KIND_STRING v) = Inr (StringParam v, StringType)"
| "immediateToParam (Imm_string STRING_KIND_BYTES v) = Inr (StringParam v, BytesType)"
| "immediateToParam (Imm_string STRING_KIND_C_STRING v) = Inr (StringParam v, CStringType)"
| "immediateToParam (Imm_real32 v) = Inr (RealParam (toDouble v), RealType 32)"
| "immediateToParam (Imm_real64 v) = Inr (RealParam v, RealType 64)"
| "immediateToParam (Imm_imag32 v) = Inr (RealParam (toDouble v), ImagType 32)"
| "immediateToParam (Imm_imag64 v) = Inr (RealParam v, ImagType 64)"
| "immediateToParam (Imm_complex64 r i) =
     Inr (ComplexParam (ComplexDouble (toDouble r) (toDouble i)), ComplexType 64)"
| "immediateToParam (Imm_complex128 r i) =
     Inr (ComplexParam (ComplexDouble r i), ComplexType 128)"
| "immediateToParam (Imm_uint8 v) = Inr (UintParam (ucast v), UintType 8)"
| "immediateToParam (Imm_uint16 v) = Inr (UintParam (ucast v), UintType 16)"
| "immediateToParam (Imm_uint32 v) = Inr (UintParam (ucast v), UintType 32)"
| "immediateToParam (Imm_uint64 v) = Inr (UintParam v, UintType 64)"
| "immediateToParam Imm_none = Inl (AssertionFailure ''case not handled'')"

section \<open>The folding engine\<close>

text \<open>
  \<^verbatim>\<open>fold_constant\<close> and \<^verbatim>\<open>coerce_immediate\<close> are defined in
  \<^verbatim>\<open>immediates/num.cpp\<close>, which is not among the sources. \<^verbatim>\<open>Param::fold\<close> and
  \<^verbatim>\<open>handleParamCast\<close> take them as the arguments \<open>foldConstant\<close> and
  \<open>coerceImmediate\<close>: the first maps the operator and the operands (the second is
  \<open>None\<close> for \<^verbatim>\<open>nullptr\<close>) to the \<^verbatim>\<open>result\<close> it writes, the second maps the source
  and the destination's empty immediate to the destination it writes; \<open>Inl\<close> is an
  evaluator that does not return. \<^verbatim>\<open>Param::fold\<close> is \<open>Param_fold\<close> here, the
  lists having a \<open>fold\<close> of their own.
\<close>

type_synonym foldConstantFn = "PrimitiveTag \<Rightarrow> Immediate \<Rightarrow> Immediate option \<Rightarrow> error + Immediate"
type_synonym coerceImmediateFn = "Immediate \<Rightarrow> Immediate \<Rightarrow> error + Immediate"

definition handleParamCast ::
    "coerceImmediateFn \<Rightarrow> QualifiedType \<Rightarrow> QualifiedType \<Rightarrow> error + QualifiedType" where
  "handleParamCast coerceImmediate a b =
     bindE (paramToImmediate (qt_param a) (qt_type a)) (\<lambda>aImm.
     bindE (paramToImmediate None (qt_type b)) (\<lambda>bImm.
     bindE (coerceImmediate aImm bImm) (\<lambda>bImm'.
     bindE (immediateToParam bImm') (\<lambda>pair.
       Inr \<lparr>qt_kind = PARAM, qt_type = Some (snd pair), qt_param = Some (fst pair)\<rparr>))))"

definition Param_fold ::
    "foldConstantFn \<Rightarrow> coerceImmediateFn \<Rightarrow> PrimitiveTag \<Rightarrow> QualifiedType \<Rightarrow> QualifiedType
       \<Rightarrow> error + QualifiedType" where
  "Param_fold foldConstant coerceImmediate op a b =
     (if hasTypePtr a \<and> hasParamPtr a then
        bindE (paramToImmediate (qt_param a) (qt_type a)) (\<lambda>aImm.
          if op = PRIM_CAST then handleParamCast coerceImmediate a b
          else if isParamOpFoldable op then
            bindE
              (if isUnknown b then foldConstant op aImm None
               else if hasTypePtr b \<and> hasParamPtr b then
                 bindE (paramToImmediate (qt_param b) (qt_type b)) (\<lambda>bImm.
                   foldConstant op aImm (Some bImm))
               else Inl (AssertionFailure ''b.hasTypePtr() && b.hasParamPtr()''))
              (\<lambda>result.
                 bindE (immediateToParam result) (\<lambda>pair.
                   Inr \<lparr>qt_kind = PARAM, qt_type = Some (snd pair), qt_param = Some (fst pair)\<rparr>))
          else Inl (AssertionFailure ''param primitive op not foldable''))
      else Inl (AssertionFailure ''a.hasTypePtr() && a.hasParamPtr()''))"

section \<open>The constant evaluator\<close>

text \<open>
  Modelled from the spec: \<^verbatim>\<open>fold_constant\<close> (\<^verbatim>\<open>immediates/num.cpp\<close>, not among the
  sources) "computes the numeric result at the bit width implied by operand A's
  Immediate (and B's, when both are concrete)": "integer results wrap modulo their
  width (2's complement) rather than trapping, division/modulo by zero and invalid
  shift amounts are reported as evaluator errors (propagated, not silently zeroed),
  comparisons always yield boolean". The model covers two integer operands of one
  kind and width under the arithmetic, relational and bitwise operators, and one
  integer operand under unary plus and minus; every other call (floating point,
  mixed operands, powers, shifts) is \<open>Inl (EvaluatorError ''outside the model'')\<close>.
  Division truncates towards zero, as the integers of the target do.
\<close>

definition truncDiv :: "int \<Rightarrow> int \<Rightarrow> int" where
  "truncDiv a b = sgn a * sgn b * (\<bar>a\<bar> div \<bar>b\<bar>)"

definition truncMod :: "int \<Rightarrow> int \<Rightarrow> int" where
  "truncMod a b = a - b * truncDiv a b"

definition foldInteger ::
    "('w::len word \<Rightarrow> int) \<Rightarrow> PrimitiveTag \<Rightarrow> 'w word \<Rightarrow> 'w word \<Rightarrow> error + ('w word + bool)" where
  "foldInteger val op x y =
     (case op of
        P_prim_add \<Rightarrow> Inr (Inl (x + y))
      | P_prim_subtract \<Rightarrow> Inr (Inl (x - y))
      | P_prim_mult \<Rightarrow> Inr (Inl (x * y))
      | P_prim_div \<Rightarrow>
          if y = 0 then Inl (EvaluatorError ''division by zero'')
          else Inr (Inl (word_of_int (truncDiv (val x) (val y))))
      | P_prim_mod \<Rightarrow>
          if y = 0 then Inl (EvaluatorError ''modulus by zero'')
          else Inr (Inl (word_of_int (truncMod (val x) (val y))))
      | P_prim_less \<Rightarrow> Inr (Inr (val x < val y))
      | P_prim_lessorequal \<Rightarrow> Inr (Inr (val x \<le> val y))
      | P_prim_greater \<Rightarrow> Inr (Inr (val x > val y))
      | P_prim_greaterorequal \<Rightarrow> Inr (Inr (val x \<ge> val y))
      | P_prim_equal \<Rightarrow> Inr (Inr (x = y))
      | P_prim_notequal \<Rightarrow> Inr (Inr (x \<noteq> y))
      | P_prim_and \<Rightarrow> Inr (Inl (and x y))
      | P_prim_xor \<Rightarrow> Inr (Inl (xor x y))
      | P_prim_or \<Rightarrow> Inr (Inl (or x y))
      | _ \<Rightarrow> Inl (EvaluatorError ''outside the model''))"

definition foldIntegerUnary :: "PrimitiveTag \<Rightarrow> 'w::len word \<Rightarrow> error + ('w word + bool)" where
  "foldIntegerUnary op x =
     (case op of
        P_prim_plus \<Rightarrow> Inr (Inl x)
      | P_prim_minus \<Rightarrow> Inr (Inl (- x))
      | _ \<Rightarrow> Inl (EvaluatorError ''outside the model''))"

definition foldResult :: "('v \<Rightarrow> Immediate) \<Rightarrow> error + ('v + bool) \<Rightarrow> error + Immediate" where
  "foldResult mk r =
     (case r of
        Inl e \<Rightarrow> Inl e
      | Inr (Inl v) \<Rightarrow> Inr (mk v)
      | Inr (Inr b) \<Rightarrow> Inr (Imm_bool b))"

definition outsideModel :: "error + Immediate" where
  "outsideModel = Inl (EvaluatorError ''outside the model'')"

definition fold_constant :: foldConstantFn where
  "fold_constant op im1 im2 =
     (case im2 of
        None \<Rightarrow>
          (case im1 of
             Imm_int8 x \<Rightarrow> foldResult Imm_int8 (foldIntegerUnary op x)
           | Imm_int16 x \<Rightarrow> foldResult Imm_int16 (foldIntegerUnary op x)
           | Imm_int32 x \<Rightarrow> foldResult Imm_int32 (foldIntegerUnary op x)
           | Imm_int64 x \<Rightarrow> foldResult Imm_int64 (foldIntegerUnary op x)
           | Imm_uint8 x \<Rightarrow> foldResult Imm_uint8 (foldIntegerUnary op x)
           | Imm_uint16 x \<Rightarrow> foldResult Imm_uint16 (foldIntegerUnary op x)
           | Imm_uint32 x \<Rightarrow> foldResult Imm_uint32 (foldIntegerUnary op x)
           | Imm_uint64 x \<Rightarrow> foldResult Imm_uint64 (foldIntegerUnary op x)
           | _ \<Rightarrow> outsideModel)
      | Some b \<Rightarrow>
          (case im1 of
             Imm_int8 x \<Rightarrow>
               (case b of Imm_int8 y \<Rightarrow> foldResult Imm_int8 (foldInteger sint op x y)
                | _ \<Rightarrow> outsideModel)
           | Imm_int16 x \<Rightarrow>
               (case b of Imm_int16 y \<Rightarrow> foldResult Imm_int16 (foldInteger sint op x y)
                | _ \<Rightarrow> outsideModel)
           | Imm_int32 x \<Rightarrow>
               (case b of Imm_int32 y \<Rightarrow> foldResult Imm_int32 (foldInteger sint op x y)
                | _ \<Rightarrow> outsideModel)
           | Imm_int64 x \<Rightarrow>
               (case b of Imm_int64 y \<Rightarrow> foldResult Imm_int64 (foldInteger sint op x y)
                | _ \<Rightarrow> outsideModel)
           | Imm_uint8 x \<Rightarrow>
               (case b of Imm_uint8 y \<Rightarrow> foldResult Imm_uint8 (foldInteger uint op x y)
                | _ \<Rightarrow> outsideModel)
           | Imm_uint16 x \<Rightarrow>
               (case b of Imm_uint16 y \<Rightarrow> foldResult Imm_uint16 (foldInteger uint op x y)
                | _ \<Rightarrow> outsideModel)
           | Imm_uint32 x \<Rightarrow>
               (case b of Imm_uint32 y \<Rightarrow> foldResult Imm_uint32 (foldInteger uint op x y)
                | _ \<Rightarrow> outsideModel)
           | Imm_uint64 x \<Rightarrow>
               (case b of Imm_uint64 y \<Rightarrow> foldResult Imm_uint64 (foldInteger uint op x y)
                | _ \<Rightarrow> outsideModel)
           | _ \<Rightarrow> outsideModel))"

text \<open>
  Modelled from the spec: \<^verbatim>\<open>coerce_immediate\<close> (\<^verbatim>\<open>immediates/num.cpp\<close>, not among
  the sources) converts "the source value to an Immediate of the destination type's
  shape, performing any necessary narrowing/widening/representation change"; a value
  outside the destination's range "truncates per modular (wraparound) semantics".
  The model covers boolean and integer sources and destinations.
\<close>

definition integerValue :: "Immediate \<Rightarrow> int option" where
  "integerValue imm =
     (case imm of
        Imm_bool v \<Rightarrow> Some (if v then 1 else 0)
      | Imm_int8 v \<Rightarrow> Some (sint v)
      | Imm_int16 v \<Rightarrow> Some (sint v)
      | Imm_int32 v \<Rightarrow> Some (sint v)
      | Imm_int64 v \<Rightarrow> Some (sint v)
      | Imm_uint8 v \<Rightarrow> Some (uint v)
      | Imm_uint16 v \<Rightarrow> Some (uint v)
      | Imm_uint32 v \<Rightarrow> Some (uint v)
      | Imm_uint64 v \<Rightarrow> Some (uint v)
      | _ \<Rightarrow> None)"

definition coerce_immediate :: coerceImmediateFn where
  "coerce_immediate src dst =
     (case integerValue src of
        None \<Rightarrow> outsideModel
      | Some n \<Rightarrow>
          (case dst of
             Imm_bool v \<Rightarrow> Inr (Imm_bool (n \<noteq> 0))
           | Imm_int8 v \<Rightarrow> Inr (Imm_int8 (word_of_int n))
           | Imm_int16 v \<Rightarrow> Inr (Imm_int16 (word_of_int n))
           | Imm_int32 v \<Rightarrow> Inr (Imm_int32 (word_of_int n))
           | Imm_int64 v \<Rightarrow> Inr (Imm_int64 (word_of_int n))
           | Imm_uint8 v \<Rightarrow> Inr (Imm_uint8 (word_of_int n))
           | Imm_uint16 v \<Rightarrow> Inr (Imm_uint16 (word_of_int n))
           | Imm_uint32 v \<Rightarrow> Inr (Imm_uint32 (word_of_int n))
           | Imm_uint64 v \<Rightarrow> Inr (Imm_uint64 (word_of_int n))
           | _ \<Rightarrow> outsideModel))"

section \<open>Interning\<close>

text \<open>
  Modelled from the spec: the getters \<^verbatim>\<open>NAME::get##NAME(context, value)\<close> are
  written with \<^verbatim>\<open>QUERY_BEGIN\<close> and \<^verbatim>\<open>QUERY_END\<close> of the query framework, which is
  not among the sources. The getter "for a given context and value, returns the
  single canonical instance for that (kind, value) pair - if no instance exists yet
  it is constructed and recorded; if one exists it is returned unchanged".

  A context is the table of its getters: the params requested so far, each with the
  address of its instance. A \<open>Param\<close> is a kind and a value, so one function
  \<open>getParam\<close> stands for the getters of all kinds. A new instance gets the next
  address.
\<close>

record Context =
  instances :: "(Param \<times> nat) list"

definition getParam :: "Context \<Rightarrow> Param \<Rightarrow> nat \<times> Context" where
  "getParam context v =
     (case map_of (instances context) v of
        Some inst \<Rightarrow> (inst, context)
      | None \<Rightarrow>
          (let result = length (instances context)
           in (result, context\<lparr>instances := instances context @ [(v, result)]\<rparr>)))"

text \<open>The context after a sequence of requests.\<close>

fun getParams :: "Context \<Rightarrow> Param list \<Rightarrow> Context" where
  "getParams context [] = context"
| "getParams context (v # vs) = getParams (snd (getParam context v)) vs"

section \<open>Predicates of the statements\<close>

text \<open>
  The text that the zero-skipping loop of the decimal parsers leaves: decimal digits,
  at least one, with no leading zero unless the text is one digit long.
\<close>

definition isDecimalDigit :: "char \<Rightarrow> bool" where
  "isDecimalDigit c = (CHR ''0'' \<le> c \<and> c \<le> CHR ''9'')"

definition strippedDecimal :: "string \<Rightarrow> bool" where
  "strippedDecimal ds =
     (ds \<noteq> [] \<and> list_all isDecimalDigit ds \<and> (hd ds \<noteq> CHR ''0'' \<or> length ds = 1))"

text \<open>
  A param whose floating parts, if it has any, are equal to themselves under the
  floating equality \<open>floatEq\<close>; under \<open>ieeeEqual\<close> these are the params that hold
  no NaN.
\<close>

fun floatSelfEqual :: "(double \<Rightarrow> double \<Rightarrow> bool) \<Rightarrow> Param \<Rightarrow> bool" where
  "floatSelfEqual floatEq (RealParam v) = floatEq v v"
| "floatSelfEqual floatEq (ComplexParam v) = (floatEq (re v) (re v) \<and> floatEq (im v) (im v))"
| "floatSelfEqual floatEq p = True"

text \<open>
  A param and a concrete type that go together: the classes correspond, an integer
  lies in the range of the type's width, and a floating value paired with a 32-bit
  component survives the way to \<^verbatim>\<open>float\<close> and back.
\<close>

fun paramFitsType :: "Param \<Rightarrow> Type \<Rightarrow> bool" where
  "paramFitsType (BoolParam v) BoolType = True"
| "paramFitsType (IntParam v) (IntType w) =
     (w = 64 \<or> (w = 8 \<or> w = 16 \<or> w = 32) \<and> - (2 ^ (w - 1)) \<le> sint v \<and> sint v < 2 ^ (w - 1))"
| "paramFitsType (UintParam v) (UintType w) =
     (w = 64 \<or> (w = 8 \<or> w = 16 \<or> w = 32) \<and> unat v < 2 ^ w)"
| "paramFitsType (RealParam v) (RealType w) = (w = 64 \<or> w = 32 \<and> toDouble (toFloat v) = v)"
| "paramFitsType (RealParam v) (ImagType w) = (w = 64 \<or> w = 32 \<and> toDouble (toFloat v) = v)"
| "paramFitsType (ComplexParam v) (ComplexType w) =
     (w = 128 \<or>
      w = 64 \<and> toDouble (toFloat (re v)) = re v \<and> toDouble (toFloat (im v)) = im v)"
| "paramFitsType (StringParam v) StringType = True"
| "paramFitsType (StringParam v) BytesType = True"
| "paramFitsType (StringParam v) CStringType = True"
| "paramFitsType p t = False"

section \<open>Properties of the literal parsers\<close>

lemmas parser_eval =
  charAt_def stringContainsZeroBytes_def skipZeros.simps skipMinus.simps
  sscanf_u64_def sscanf_d64_def isDigitOf_def digitValue_def digitsValue_def
  snprintf_u64_def decimalDigits.simps isHexChar_def

lemma overflowMsg_neq_illegalMsg: "overflowMsg str \<noteq> illegalMsg c radix"
  by (simp add: overflowMsg_def illegalMsg_def)

text \<open>
  C1. The claim: the octal parser rejects every character outside \<open>0\<close>-\<open>7\<close> with the
  illegal-character error, the character \<open>8\<close> in particular. The validation loop of
  \<^verbatim>\<open>octStr2uint64\<close> compares with \<^verbatim>\<open>'8'\<close>, not \<^verbatim>\<open>'7'\<close>: on \<^verbatim>\<open>0o18\<close> the
  parser returns 1 and leaves \<open>err\<close> as it was, on \<^verbatim>\<open>0o8\<close> it reports a
  conversion error, and only from \<open>9\<close> on is a character reported as illegal.
\<close>

theorem octStr2uint64_accepts_8:
  "octStr2uint64 ''0o18'' err = Inr (1, err) \<and>
   octStr2uint64 ''0o8'' err = Inr (0, ''error converting octal literal'') \<and>
   octStr2uint64 ''0o9'' err = Inr (0, illegalMsg CHR ''9'' ''octal'')"
  by (simp add: octStr2uint64_def parser_eval)

text \<open>
  Within the length limit the first character outside \<open>0\<close>-\<open>8\<close> is reported as
  illegal, by name.
\<close>

lemma octStr2uint64_illegal_character:
  assumes "charAt str 0 = CHR ''0''" "charAt str 1 = CHR ''o'' \<or> charAt str 1 = CHR ''O''"
    and "\<not> stringContainsZeroBytes str"
    and "length str - skipZeros str 2 < 22 \<or>
         (length str - skipZeros str 2 = 22 \<and> charAt str (skipZeros str 2) = CHR ''1'')"
    and "find (\<lambda>c. \<not> (CHR ''0'' \<le> c \<and> c \<le> CHR ''8'')) (drop (skipZeros str 2) str) = Some c"
  shows "octStr2uint64 str err = Inr (0, illegalMsg c ''octal'')"
  using assms by (auto simp add: octStr2uint64_def Let_def)

text \<open>
  C2, as claimed: a literal that both holds a character outside its radix and is too
  long gets the illegal-character error. It does not: \<^verbatim>\<open>0xG\<close> followed by sixteen
  \<open>F\<close> holds the illegal \<open>G\<close> and gets the overflow error.
\<close>

theorem overflow_reported_before_illegal_character:
  "\<not> isHexChar CHR ''G'' \<and>
   hexStr2uint64 ''0xGFFFFFFFFFFFFFFFF'' [] = Inr (0, overflowMsg ''0xGFFFFFFFFFFFFFFFF'') \<and>
   overflowMsg ''0xGFFFFFFFFFFFFFFFF'' \<noteq> illegalMsg CHR ''G'' ''hexadecimal''"
  by (simp add: hexStr2uint64_def parser_eval overflowMsg_def illegalMsg_def)

text \<open>
  C2, amended: in \<^verbatim>\<open>binStr2uint64\<close>, \<^verbatim>\<open>octStr2uint64\<close> and \<^verbatim>\<open>hexStr2uint64\<close>
  the length check comes first. A literal with the right prefix and no NUL byte that
  has, after the prefix and the skipped zeros, more than 64 (binary) or 16
  (hexadecimal) characters, or more than 22, or 22 not starting with \<open>1\<close> (octal),
  gets the overflow error whatever its characters are, and never the
  illegal-character error.
\<close>

theorem length_check_precedes_character_check:
  "(charAt str 0 = CHR ''0'' \<and> (charAt str 1 = CHR ''b'' \<or> charAt str 1 = CHR ''B'') \<and>
      \<not> stringContainsZeroBytes str \<and> 64 < length str - skipZeros str 2
      \<longrightarrow> binStr2uint64 str err = Inr (0, overflowMsg str) \<and>
          overflowMsg str \<noteq> illegalMsg c ''binary'') \<and>
   (charAt str 0 = CHR ''0'' \<and> (charAt str 1 = CHR ''o'' \<or> charAt str 1 = CHR ''O'') \<and>
      \<not> stringContainsZeroBytes str \<and>
      (22 < length str - skipZeros str 2 \<or>
       (length str - skipZeros str 2 = 22 \<and> charAt str (skipZeros str 2) \<noteq> CHR ''1''))
      \<longrightarrow> octStr2uint64 str err = Inr (0, overflowMsg str) \<and>
          overflowMsg str \<noteq> illegalMsg c ''octal'') \<and>
   (charAt str 0 = CHR ''0'' \<and> (charAt str 1 = CHR ''x'' \<or> charAt str 1 = CHR ''X'') \<and>
      \<not> stringContainsZeroBytes str \<and> 16 < length str - skipZeros str 2
      \<longrightarrow> hexStr2uint64 str err = Inr (0, overflowMsg str) \<and>
          overflowMsg str \<noteq> illegalMsg c ''hexadecimal'')"
  by (auto simp add: binStr2uint64_def octStr2uint64_def hexStr2uint64_def Let_def
      overflowMsg_neq_illegalMsg)

theorem length_check_precedes_character_check_witness:
  "binStr2uint64 ''0b21111111111111111111111111111111111111111111111111111111111111111'' [] =
     Inr (0, overflowMsg ''0b21111111111111111111111111111111111111111111111111111111111111111'') \<and>
   octStr2uint64 ''0o97777777777777777777777'' [] =
     Inr (0, overflowMsg ''0o97777777777777777777777'') \<and>
   hexStr2uint64 ''0xGFFFFFFFFFFFFFFFF'' [] =
     Inr (0, overflowMsg ''0xGFFFFFFFFFFFFFFFF'')"
  using
    length_check_precedes_character_check
      [of "''0b21111111111111111111111111111111111111111111111111111111111111111''" "[]"]
    length_check_precedes_character_check [of "''0o97777777777777777777777''" "[]"]
    length_check_precedes_character_check [of "''0xGFFFFFFFFFFFFFFFF''" "[]"]
  by (simp add: parser_eval)

text \<open>
  C6. \<^verbatim>\<open>hexStr2uint64\<close> on \<^verbatim>\<open>0x\<close> and sixteen \<open>F\<close> returns \<^verbatim>\<open>UINT64_MAX\<close> and
  leaves \<open>err\<close> as it was; on \<^verbatim>\<open>0x\<close> and seventeen \<open>F\<close> it returns 0 with the
  overflow message.
\<close>

theorem hexStr2uint64_boundary:
  "hexStr2uint64 ''0xFFFFFFFFFFFFFFFF'' err = Inr (0xFFFFFFFFFFFFFFFF, err) \<and>
   unat (0xFFFFFFFFFFFFFFFF :: 64 word) = 2 ^ 64 - 1 \<and>
   hexStr2uint64 ''0xFFFFFFFFFFFFFFFFF'' err =
     Inr (0, overflowMsg ''0xFFFFFFFFFFFFFFFFF'')"
  by (simp add: hexStr2uint64_def parser_eval)

subsection \<open>The decimal round trip\<close>

lemma isDecimalDigit_cases:
  assumes "isDecimalDigit c"
  shows "c \<in> set ''0123456789''"
proof -
  define n :: nat where "n = of_char c"
  have inj: "c = d" if "n = of_char d" for d
    using that by (simp add: n_def)
  from assms have "48 \<le> n \<and> n \<le> 57"
    by (simp add: isDecimalDigit_def less_eq_char_def n_def)
  then have "n = 48 \<or> n = 49 \<or> n = 50 \<or> n = 51 \<or> n = 52 \<or> n = 53 \<or> n = 54 \<or> n = 55 \<or>
             n = 56 \<or> n = 57"
    by arith
  then have "n = of_char CHR ''0'' \<or> n = of_char CHR ''1'' \<or> n = of_char CHR ''2'' \<or>
             n = of_char CHR ''3'' \<or> n = of_char CHR ''4'' \<or> n = of_char CHR ''5'' \<or>
             n = of_char CHR ''6'' \<or> n = of_char CHR ''7'' \<or> n = of_char CHR ''8'' \<or>
             n = of_char CHR ''9''"
    by simp
  then show ?thesis
    using inj by fastforce
qed

lemma digit_of_isDecimalDigit:
  "isDecimalDigit c \<Longrightarrow> digitValue c < 10 \<and> ''0123456789'' ! digitValue c = c \<and> c \<noteq> CHR 0x00 \<and>
     (c \<noteq> CHR ''0'' \<longrightarrow> 0 < digitValue c)"
  by (drule isDecimalDigit_cases) (auto simp add: digitValue_def)

lemma isDecimalDigit_of_digit:
  assumes "d < 10"
  shows "digitValue (''0123456789'' ! d) = d"
proof -
  from assms have "d = 0 \<or> d = 1 \<or> d = 2 \<or> d = 3 \<or> d = 4 \<or> d = 5 \<or> d = 6 \<or> d = 7 \<or> d = 8 \<or> d = 9"
    by arith
  then show ?thesis by (auto simp add: digitValue_def)
qed

lemma digitsValue_snoc:
  "digitsValue r (xs @ [c]) = digitsValue r xs * r + digitValue c"
  by (simp add: digitsValue_def)

lemma digitsValue_append:
  "digitsValue r (xs @ ys) = digitsValue r xs * r ^ length ys + digitsValue r ys"
proof (induction ys rule: rev_induct)
  case Nil
  then show ?case by (simp add: digitsValue_def)
next
  case (snoc y ys)
  have "digitsValue r (xs @ ys @ [y]) = digitsValue r ((xs @ ys) @ [y])" by simp
  also have "\<dots> = digitsValue r (xs @ ys) * r + digitValue y" by (rule digitsValue_snoc)
  finally show ?case using snoc by (simp add: digitsValue_snoc algebra_simps)
qed

lemma digitsValue_take_le: "digitsValue 10 (take n xs) \<le> digitsValue 10 xs"
proof -
  have "digitsValue 10 xs = digitsValue 10 (take n xs @ drop n xs)" by simp
  also have "\<dots> = digitsValue 10 (take n xs) * 10 ^ length (drop n xs) +
                    digitsValue 10 (drop n xs)"
    by (rule digitsValue_append)
  finally have eq: "digitsValue 10 xs =
      digitsValue 10 (take n xs) * 10 ^ length (drop n xs) + digitsValue 10 (drop n xs)" .
  have "digitsValue 10 (take n xs) \<le> digitsValue 10 (take n xs) * 10 ^ length (drop n xs)"
    by simp
  with eq show ?thesis by linarith
qed

lemma digitsValue_decimalDigits: "digitsValue 10 (decimalDigits n) = n"
proof (induction n rule: decimalDigits.induct)
  case (1 n)
  show ?case
  proof (cases "n < 10")
    case True
    then show ?thesis
      by (simp add: decimalDigits.simps [of n] digitsValue_def isDecimalDigit_of_digit)
  next
    case False
    with 1 have "digitsValue 10 (decimalDigits (n div 10)) = n div 10" by simp
    with False show ?thesis
      by (simp add: decimalDigits.simps [of n] digitsValue_snoc isDecimalDigit_of_digit)
  qed
qed

lemma digitsValue_pos:
  "xs \<noteq> [] \<Longrightarrow> isDecimalDigit (hd xs) \<Longrightarrow> hd xs \<noteq> CHR ''0'' \<Longrightarrow> 0 < digitsValue 10 xs"
proof -
  assume a: "xs \<noteq> []" "isDecimalDigit (hd xs)" "hd xs \<noteq> CHR ''0''"
  then obtain c cs where xs: "xs = [c] @ cs" by (cases xs) auto
  with a have "0 < digitValue c" using digit_of_isDecimalDigit [of c] by simp
  then show ?thesis
    unfolding xs digitsValue_append by (simp add: digitsValue_def)
qed

lemma decimalDigits_digitsValue:
  "strippedDecimal ds \<Longrightarrow> decimalDigits (digitsValue 10 ds) = ds"
proof (induction ds rule: rev_induct)
  case Nil
  then show ?case by (simp add: strippedDecimal_def)
next
  case (snoc c xs)
  from snoc.prems have c: "isDecimalDigit c" by (simp add: strippedDecimal_def)
  show ?case
  proof (cases "xs = []")
    case True
    with c show ?thesis
      using digit_of_isDecimalDigit [of c]
      by (simp add: digitsValue_def decimalDigits.simps [of "digitValue c"])
  next
    case False
    with snoc.prems have cx: "strippedDecimal xs" and hd: "hd xs \<noteq> CHR ''0''" "isDecimalDigit (hd xs)"
      by (cases xs; auto simp add: strippedDecimal_def)+
    from False hd have pos: "0 < digitsValue 10 xs" by (simp add: digitsValue_pos)
    from c have d: "digitValue c < 10" "''0123456789'' ! digitValue c = c"
      using digit_of_isDecimalDigit [of c] by simp_all
    from pos d have "\<not> digitsValue 10 xs * 10 + digitValue c < 10" by simp
    moreover from d have "(digitsValue 10 xs * 10 + digitValue c) div 10 = digitsValue 10 xs"
      "(digitsValue 10 xs * 10 + digitValue c) mod 10 = digitValue c"
      by simp_all
    ultimately show ?thesis
      using snoc.IH [OF cx] d
      by (simp add: digitsValue_snoc decimalDigits.simps [of "digitsValue 10 xs * 10 + digitValue c"])
  qed
qed

lemma skipMinus_replicate:
  "rest \<noteq> [] \<Longrightarrow> hd rest \<noteq> CHR ''-'' \<Longrightarrow> i \<le> k \<Longrightarrow>
   skipMinus (replicate k CHR ''-'' @ rest) i neg = (k, if even (k - i) then neg else \<not> neg)"
proof (induction "k - i" arbitrary: i neg)
  case 0
  then have "i = k" by simp
  with 0 show ?case
    by (subst skipMinus.simps) (simp add: charAt_def nth_append hd_conv_nth)
next
  case (Suc n)
  then have lt: "i < k" and n: "n = k - (i + 1)" and le: "i + 1 \<le> k" by simp_all
  from Suc.prems obtain r rs where "rest = r # rs" by (cases rest) auto
  with lt have "charAt (replicate k CHR ''-'' @ rest) i = CHR ''-''"
    "i < length (replicate k CHR ''-'' @ rest) - 1"
    by (auto simp add: charAt_def nth_append)
  then have "skipMinus (replicate k CHR ''-'' @ rest) i neg =
             skipMinus (replicate k CHR ''-'' @ rest) (i + 1) (\<not> neg)"
    by (subst skipMinus.simps) simp
  also have "\<dots> = (k, if even (k - (i + 1)) then \<not> neg else \<not> \<not> neg)"
    using Suc.hyps(1) [OF n Suc.prems(1) Suc.prems(2) le] .
  finally show ?case using lt by (auto simp add: Suc_diff_Suc)
qed

lemma skipZeros_replicate:
  "ds \<noteq> [] \<Longrightarrow> hd ds \<noteq> CHR ''0'' \<or> length ds = 1 \<Longrightarrow> i \<le> z \<Longrightarrow>
   skipZeros (pre @ replicate z CHR ''0'' @ ds) (length pre + i) = length pre + z"
proof (induction "z - i" arbitrary: i)
  case 0
  then have i: "i = z" by simp
  from 0 have "charAt (pre @ replicate z CHR ''0'' @ ds) (length pre + z) = hd ds"
    by (simp add: charAt_def nth_append hd_conv_nth)
  with 0 i show ?case
    by (subst skipZeros.simps) auto
next
  case (Suc n)
  then have lt: "i < z" and n: "n = z - (i + 1)" and le: "i + 1 \<le> z" by simp_all
  from Suc.prems obtain d ds' where "ds = d # ds'" by (cases ds) auto
  with lt have "charAt (pre @ replicate z CHR ''0'' @ ds) (length pre + i) = CHR ''0''"
    "length pre + i < length (pre @ replicate z CHR ''0'' @ ds) - 1"
    by (auto simp add: charAt_def nth_append)
  then have "skipZeros (pre @ replicate z CHR ''0'' @ ds) (length pre + i) =
             skipZeros (pre @ replicate z CHR ''0'' @ ds) (length pre + (i + 1))"
    by (subst skipZeros.simps) simp
  also have "\<dots> = length pre + z"
    using Suc.hyps(1) [OF n Suc.prems(1) Suc.prems(2) le] .
  finally show ?case .
qed

lemma isDecimalDigit_isDigitOf: "isDecimalDigit c \<Longrightarrow> isDigitOf 10 c"
  using digit_of_isDecimalDigit [of c] by (simp add: isDigitOf_def)

lemma find_nondigit_None:
  "list_all isDecimalDigit ds \<Longrightarrow> find (\<lambda>c. \<not> (CHR ''0'' \<le> c \<and> c \<le> CHR ''9'')) ds = None"
  by (simp add: find_None_iff list_all_iff isDecimalDigit_def)

lemma takeWhile_digits: "list_all isDecimalDigit ds \<Longrightarrow> takeWhile (isDigitOf 10) ds = ds"
  by (simp add: takeWhile_eq_all_conv list_all_iff isDecimalDigit_isDigitOf)

lemma no_zero_bytes:
  "list_all isDecimalDigit ds \<Longrightarrow>
   \<not> stringContainsZeroBytes (replicate k CHR ''-'' @ replicate z CHR ''0'' @ ds)"
  using digit_of_isDecimalDigit by (auto simp add: stringContainsZeroBytes_def list_all_iff)

lemma first_not_nul:
  "ds \<noteq> [] \<Longrightarrow> list_all isDecimalDigit ds \<Longrightarrow>
   charAt (replicate k CHR ''-'' @ replicate z CHR ''0'' @ ds) 0 \<noteq> CHR 0x00"
proof -
  assume a: "ds \<noteq> []" "list_all isDecimalDigit ds"
  let ?s = "replicate k CHR ''-'' @ replicate z CHR ''0'' @ ds"
  from a have "?s \<noteq> []" by simp
  then have "charAt ?s 0 \<in> set ?s" by (cases ?s) (simp_all add: charAt_def)
  moreover have "CHR 0x00 \<notin> set ?s"
    using no_zero_bytes [OF a(2), of k z] by (simp add: stringContainsZeroBytes_def)
  ultimately show ?thesis by metis
qed

lemma roundtrip_check:
  assumes "ds \<noteq> []" "list_all isDecimalDigit ds" "hd ds \<noteq> CHR ''0'' \<or> length ds = 1"
    and "length ds \<le> len" and "m < 2 ^ 64"
  shows "ds = snprintf_u64 len (word_of_nat (min (digitsValue 10 ds) m))
           \<longleftrightarrow> digitsValue 10 ds \<le> m"
proof -
  from assms have can: "strippedDecimal ds" by (simp add: strippedDecimal_def)
  let ?v = "digitsValue 10 ds"
  have u: "unat (word_of_nat (min ?v m) :: 64 word) = min ?v m"
    using assms(5) by (intro of_nat_inverse [OF refl]) simp
  show ?thesis
  proof (cases "?v \<le> m")
    case True
    then have "min ?v m = ?v" by simp
    with u assms(4) show ?thesis
      using decimalDigits_digitsValue [OF can] True by (simp add: snprintf_u64_def)
  next
    case False
    then have m: "min ?v m = m" by simp
    have "ds \<noteq> take len (decimalDigits m)"
    proof
      assume "ds = take len (decimalDigits m)"
      then have "?v = digitsValue 10 (take len (decimalDigits m))" by simp
      also have "\<dots> \<le> digitsValue 10 (decimalDigits m)" by (rule digitsValue_take_le)
      also have "\<dots> = m" by (rule digitsValue_decimalDigits)
      finally show False using False by simp
    qed
    with u m False show ?thesis by (simp add: snprintf_u64_def)
  qed
qed


lemma sint_parsed:
  assumes "v < 2 ^ 63"
  shows "sint (word_of_nat v :: 64 word) = int v" and "sint (- word_of_nat v :: 64 word) = - int v"
proof -
  from assms have b: "int v < 2 ^ 63" by (metis of_nat_less_iff of_nat_numeral of_nat_power)
  then show p: "sint (word_of_nat v :: 64 word) = int v"
    by (simp add: signed_of_nat signed_take_bit_int_eq_self take_bit_int_eq_self)
  from b show "sint (- word_of_nat v :: 64 word) = - int v"
    by (simp add: sint_word_minus p signed_take_bit_int_eq_self)
qed

text \<open>
  The unsigned decimal parser on zeros followed by a stripped decimal text: the
  round trip through \<^verbatim>\<open>snprintf\<close> accepts exactly the values below \<open>2 ^ 64\<close>.
\<close>

lemma decStr2uint64_overflow:
  assumes "strippedDecimal ds"
  shows "decStr2uint64 (replicate z CHR ''0'' @ ds) err =
     (if digitsValue 10 ds < 2 ^ 64
      then Inr (word_of_nat (digitsValue 10 ds), err)
      else Inr (0, overflowMsg (replicate z CHR ''0'' @ ds)))"
proof -
  from assms have ne: "ds \<noteq> []" and dec: "list_all isDecimalDigit ds"
    and hd0: "hd ds \<noteq> CHR ''0'' \<or> length ds = 1" by (simp_all add: strippedDecimal_def)
  let ?v = "digitsValue 10 ds"
  let ?s = "replicate z CHR ''0'' @ ds"
  have zeros: "skipZeros ?s 0 = z"
    using skipZeros_replicate [OF ne hd0, of 0 z "[]"] by simp
  have drop: "drop z ?s = ds" by simp
  have scan: "sscanf_u64 10 ds = Some (word_of_nat (min ?v (2 ^ 64 - 1)))"
    using ne by (simp add: sscanf_u64_def takeWhile_digits [OF dec])
  have chk: "ds = snprintf_u64 (length ?s) (word_of_nat (min ?v (2 ^ 64 - 1))) \<longleftrightarrow>
             ?v \<le> 2 ^ 64 - 1"
    by (rule roundtrip_check [OF ne dec hd0]) simp_all
  have lt: "?v \<le> 2 ^ 64 - 1 \<longleftrightarrow> ?v < 2 ^ 64" by auto
  have mn: "?v < 2 ^ 64 \<Longrightarrow> min ?v (2 ^ 64 - 1) = ?v" by simp
  show ?thesis
    unfolding decStr2uint64_def
    using first_not_nul [OF ne dec, of 0 z] no_zero_bytes [OF dec, of 0 z] chk lt mn
    by (simp only: zeros drop scan find_nondigit_None [OF dec] Let_def
        option.case if_True if_False simp_thms) auto
qed

text \<open>
  C8, as claimed: \<^verbatim>\<open>decStr2int64\<close> rejects overflow as \<^verbatim>\<open>decStr2uint64\<close> does.
  The comparison with the text written back and the message are the same, the texts
  rejected are not: \<^verbatim>\<open>decStr2int64\<close> reads with \<^verbatim>\<open>SCNd64\<close>,
  \<^verbatim>\<open>decStr2uint64\<close> with \<^verbatim>\<open>SCNu64\<close>, and \<^verbatim>\<open>9223372036854775808\<close>, which is
  \<open>2 ^ 63\<close>, is accepted by the unsigned parser and rejected by the signed one.
\<close>

theorem decStr2int64_rejects_what_decStr2uint64_accepts:
  "decStr2uint64 ''9223372036854775808'' [] = Inr (0x8000000000000000, []) \<and>
   decStr2int64 ''9223372036854775808'' [] =
     Inr (0, overflowMsg ''9223372036854775808'') \<and>
   overflowMsg ''9223372036854775808'' \<noteq> []"
  by (simp add: decStr2uint64_def decStr2int64_def parser_eval overflowMsg_def)

text \<open>
  C8, amended. \<^verbatim>\<open>decStr2int64\<close> on \<open>k\<close> minus signs, \<open>z\<close> zeros and a stripped
  decimal text \<open>ds\<close>: every minus sign and every zero is skipped, the digits are
  parsed and written back as text, and the parser returns the parsed magnitude,
  negated exactly when \<open>k\<close> is odd; when the text written back differs from \<open>ds\<close> it
  returns 0 with the overflow message. The check and the message are those of
  \<^verbatim>\<open>decStr2uint64\<close>, the limit is not: the signed conversion saturates at
  \<open>2 ^ 63 - 1\<close>, so \<^verbatim>\<open>decStr2int64\<close> rejects the magnitudes from \<open>2 ^ 63\<close> on,
  where \<^verbatim>\<open>decStr2uint64\<close> rejects those from \<open>2 ^ 64\<close> on.
\<close>

theorem decStr2int64_sign_and_overflow:
  "strippedDecimal ds \<longrightarrow>
   decStr2int64 (replicate k CHR ''-'' @ replicate z CHR ''0'' @ ds) err =
     (if digitsValue 10 ds < 2 ^ 63
      then Inr (if odd k then - word_of_nat (digitsValue 10 ds)
                else word_of_nat (digitsValue 10 ds), err)
      else Inr (0, overflowMsg (replicate k CHR ''-'' @ replicate z CHR ''0'' @ ds))) \<and>
   decStr2uint64 (replicate z CHR ''0'' @ ds) err =
     (if digitsValue 10 ds < 2 ^ 64
      then Inr (word_of_nat (digitsValue 10 ds), err)
      else Inr (0, overflowMsg (replicate z CHR ''0'' @ ds))) \<and>
   (digitsValue 10 ds < 2 ^ 63 \<longrightarrow>
      sint (word_of_nat (digitsValue 10 ds) :: 64 word) = int (digitsValue 10 ds) \<and>
      sint (- word_of_nat (digitsValue 10 ds) :: 64 word) = - int (digitsValue 10 ds))"
proof (intro impI conjI)
  assume "strippedDecimal ds"
  then show "decStr2uint64 (replicate z CHR ''0'' @ ds) err =
     (if digitsValue 10 ds < 2 ^ 64
      then Inr (word_of_nat (digitsValue 10 ds), err)
      else Inr (0, overflowMsg (replicate z CHR ''0'' @ ds)))"
    by (rule decStr2uint64_overflow)
next
  assume "strippedDecimal ds"
  then have ne: "ds \<noteq> []" and dec: "list_all isDecimalDigit ds"
    and hd0: "hd ds \<noteq> CHR ''0'' \<or> length ds = 1" by (simp_all add: strippedDecimal_def)
  let ?v = "digitsValue 10 ds"
  let ?s = "replicate k CHR ''-'' @ replicate z CHR ''0'' @ ds"
  from ne dec have hdd: "isDecimalDigit (hd ds)" by (cases ds) simp_all
  then have hdm: "hd ds \<noteq> CHR ''-''" by (auto simp add: isDecimalDigit_def)
  have rest: "replicate z CHR ''0'' @ ds \<noteq> []" "hd (replicate z CHR ''0'' @ ds) \<noteq> CHR ''-''"
    using ne hdm by (cases z; simp)+
  have minus: "skipMinus ?s 0 False = (k, odd k)"
    using skipMinus_replicate [OF rest, of 0 k False] by simp
  have zeros: "skipZeros ?s k = k + z"
    using skipZeros_replicate [OF ne hd0, of 0 z "replicate k CHR ''-''"] by simp
  have drop: "drop (k + z) ?s = ds" by simp
  have scan: "sscanf_d64 ds = Some (word_of_nat (min ?v (2 ^ 63 - 1)))"
    using ne by (simp add: sscanf_d64_def takeWhile_digits [OF dec])
  have chk: "ds = snprintf_u64 (length ?s) (word_of_nat (min ?v (2 ^ 63 - 1))) \<longleftrightarrow>
             ?v \<le> 2 ^ 63 - 1"
    by (rule roundtrip_check [OF ne dec hd0]) simp_all
  have lt: "?v \<le> 2 ^ 63 - 1 \<longleftrightarrow> ?v < 2 ^ 63" by auto
  have mn: "?v < 2 ^ 63 \<Longrightarrow> min ?v (2 ^ 63 - 1) = ?v" by simp
  show "decStr2int64 ?s err =
     (if ?v < 2 ^ 63
      then Inr (if odd k then - word_of_nat ?v else word_of_nat ?v, err)
      else Inr (0, overflowMsg ?s))"
    unfolding decStr2int64_def
    using first_not_nul [OF ne dec, of k z] no_zero_bytes [OF dec, of k z] chk lt mn
    by (simp only: minus zeros drop scan find_nondigit_None [OF dec] Let_def split
        option.case if_True if_False simp_thms) auto
next
  assume "digitsValue 10 ds < 2 ^ 63"
  then show "sint (word_of_nat (digitsValue 10 ds) :: 64 word) = int (digitsValue 10 ds)"
    by (rule sint_parsed)
next
  assume "digitsValue 10 ds < 2 ^ 63"
  then show "sint (- word_of_nat (digitsValue 10 ds) :: 64 word) = - int (digitsValue 10 ds)"
    by (rule sint_parsed)
qed

theorem decStr2int64_sign_and_overflow_witness:
  "decStr2int64 ''--5'' [] = Inr (5, []) \<and>
   decStr2int64 ''-5'' [] = Inr (- 5, []) \<and>
   sint (- 5 :: 64 word) = - 5 \<and>
   decStr2int64 ''---0042'' [] = Inr (- 42, []) \<and>
   decStr2int64 ''-9223372036854775808'' [] =
     Inr (0, overflowMsg ''-9223372036854775808'') \<and>
   decStr2uint64 ''0042'' [] = Inr (42, []) \<and>
   decStr2uint64 ''9223372036854775808'' [] = Inr (0x8000000000000000, []) \<and>
   decStr2uint64 ''18446744073709551616'' [] =
     Inr (0, overflowMsg ''18446744073709551616'')"
  using
    decStr2int64_sign_and_overflow [of "''5''" "Suc (Suc 0)" 0 "[]"]
    decStr2int64_sign_and_overflow [of "''5''" "Suc 0" 0 "[]"]
    decStr2int64_sign_and_overflow [of "''42''" "Suc (Suc (Suc 0))" "Suc (Suc 0)" "[]"]
    decStr2int64_sign_and_overflow [of "''9223372036854775808''" "Suc 0" 0 "[]"]
    decStr2int64_sign_and_overflow [of "''18446744073709551616''" 0 0 "[]"]
  by (simp add: strippedDecimal_def isDecimalDigit_def digitsValue_def digitValue_def)

section \<open>Properties of the conversions\<close>

lemma sint_ucast_8: "sint (ucast (x :: 64 word) :: 8 word) = signed_take_bit 7 (sint x)"
  by (simp add: signed_ucast_eq uint_sint signed_take_bit_take_bit)
lemma sint_scast_8: "sint (scast (w :: 8 word) :: 64 word) = sint w"
  by (rule sint_up_scast) (simp add: is_up)
lemma sint_add_8: "sint (scast (ucast x + ucast y :: 8 word) :: 64 word) = signed_take_bit 7 (sint (x::64 word) + sint (y::64 word))"
  by (simp add: sint_scast_8 sint_word_add sint_ucast_8 signed_take_bit_add)
lemma scast_ucast_8: "- (2 ^ 7) \<le> sint (v :: 64 word) \<Longrightarrow> sint v < 2 ^ 7 \<Longrightarrow> scast (ucast v :: 8 word) = v"
  by (simp add: scast_eq sint_ucast_8 signed_take_bit_int_eq_self)
lemma ucast_ucast_8: "unat (v :: 64 word) < 2 ^ 8 \<Longrightarrow> ucast (ucast v :: 8 word) = v"
  by (simp add: word_unat_eq_iff unsigned_ucast_eq unsigned_take_bit_eq take_bit_nat_eq_self)
lemma ucast_ucast_16: "unat (v :: 64 word) < 2 ^ 16 \<Longrightarrow> ucast (ucast v :: 16 word) = v"
  by (simp add: word_unat_eq_iff unsigned_ucast_eq unsigned_take_bit_eq take_bit_nat_eq_self)
lemma ucast_ucast_32: "unat (v :: 64 word) < 2 ^ 32 \<Longrightarrow> ucast (ucast v :: 32 word) = v"
  by (simp add: word_unat_eq_iff unsigned_ucast_eq unsigned_take_bit_eq take_bit_nat_eq_self)
lemma sint_ucast_16: "sint (ucast (x :: 64 word) :: 16 word) = signed_take_bit 15 (sint x)"
  by (simp add: signed_ucast_eq uint_sint signed_take_bit_take_bit)
lemma sint_ucast_32: "sint (ucast (x :: 64 word) :: 32 word) = signed_take_bit 31 (sint x)"
  by (simp add: signed_ucast_eq uint_sint signed_take_bit_take_bit)
lemma scast_ucast_16: "- (2 ^ 15) \<le> sint (v :: 64 word) \<Longrightarrow> sint v < 2 ^ 15 \<Longrightarrow> scast (ucast v :: 16 word) = v"
  by (simp add: scast_eq sint_ucast_16 signed_take_bit_int_eq_self)
lemma scast_ucast_32: "- (2 ^ 31) \<le> sint (v :: 64 word) \<Longrightarrow> sint v < 2 ^ 31 \<Longrightarrow> scast (ucast v :: 32 word) = v"
  by (simp add: scast_eq sint_ucast_32 signed_take_bit_int_eq_self)

lemmas conv_defs =
  paramToImmediate_def bindE_def deref_def getImmediateValueOrEmpty_def
  complexCase_def intCase_def realCase_def stringCase_def uintCase_def
  asBoolParam_def asComplexParam_def asIntParam_def asRealParam_def asStringParam_def
  asUintParam_def

text \<open>
  C5, as claimed: a param and its type come back from the immediate, for every kind,
  \<^verbatim>\<open>NoneParam\<close> included. They do not: \<^verbatim>\<open>paramToImmediate\<close> turns a
  \<^verbatim>\<open>NoneParam\<close> into the boolean immediate \<open>false\<close>, which comes back as the
  \<^verbatim>\<open>BoolParam\<close> \<open>false\<close> of type \<^verbatim>\<open>bool\<close>; and an integer outside the range of
  its type comes back truncated. No floating value is compared here.
\<close>

theorem none_param_round_trip_fails:
  "bindE (paramToImmediate (Some NoneParam) (Some NothingType)) immediateToParam =
     Inr (BoolParam False, BoolType) \<and>
   \<not> completeMatch ieeeEqual NoneParam (BoolParam False) \<and> BoolType \<noteq> NothingType \<and>
   bindE (paramToImmediate (Some (IntParam 300)) (Some (IntType 8))) immediateToParam =
     Inr (IntParam 44, IntType 8) \<and>
   \<not> completeMatch ieeeEqual (IntParam 300) (IntParam 44)"
  by (simp add: conv_defs completeMatch_def)

lemma round_trip_value:
  "paramFitsType p t \<Longrightarrow>
   bindE (paramToImmediate (Some p) (Some t)) immediateToParam = Inr (p, t)"
  by (cases p; cases t)
     (auto simp add: conv_defs Let_def scast_ucast_8 scast_ucast_16 scast_ucast_32
        ucast_ucast_8 ucast_ucast_16 ucast_ucast_32)

lemma completeMatch_self:
  "floatSelfEqual floatEq p \<Longrightarrow> completeMatch floatEq p p"
  by (cases p) (simp_all add: completeMatch_def)

lemma ieeeEqual_self: "ieeeEqual v v \<longleftrightarrow> \<not> isNaN v"
  by (simp add: ieeeEqual_def)

text \<open>
  Under the comparison of the language a NaN does not match itself, so a real param
  that holds one comes back bit for bit and still does not \<^verbatim>\<open>completeMatch\<close>.
\<close>

lemma nan_param_does_not_match:
  "isNaN 0x7FF8000000000000 \<and>
   bindE (paramToImmediate (Some (RealParam 0x7FF8000000000000)) (Some (RealType 64)))
     immediateToParam = Inr (RealParam 0x7FF8000000000000, RealType 64) \<and>
   \<not> completeMatch ieeeEqual (RealParam 0x7FF8000000000000) (RealParam 0x7FF8000000000000)"
  by (simp add: conv_defs completeMatch_def ieeeEqual_def isNaN_def)

text \<open>
  C5, amended: for a boolean, integer, unsigned, real, complex or string param and a
  concrete type that fits it (\<open>paramFitsType\<close>), \<^verbatim>\<open>paramToImmediate\<close> followed by
  \<^verbatim>\<open>immediateToParam\<close> yields the same type and a param with the same payload,
  bit for bit; it \<^verbatim>\<open>completeMatch\<close>-equals the first whenever the floating
  equality, whichever it is, holds the param's floating parts equal to themselves
  (no NaN, under the comparison of the language).
\<close>

theorem paramToImmediate_round_trip:
  "paramFitsType p t \<and> floatSelfEqual floatEq p \<longrightarrow>
     (\<exists>p'. bindE (paramToImmediate (Some p) (Some t)) immediateToParam = Inr (p', t) \<and>
           p' = p \<and> completeMatch floatEq p p')"
  by (auto simp add: round_trip_value completeMatch_self)

theorem paramToImmediate_round_trip_witness:
  "(\<exists>p'. bindE (paramToImmediate (Some (IntParam (- 5))) (Some (IntType 8))) immediateToParam =
          Inr (p', IntType 8) \<and> p' = IntParam (- 5) \<and>
          completeMatch ieeeEqual (IntParam (- 5)) p') \<and>
   (\<exists>p'. bindE (paramToImmediate (Some (RealParam 0x3FF0000000000000)) (Some (RealType 32)))
            immediateToParam = Inr (p', RealType 32) \<and> p' = RealParam 0x3FF0000000000000 \<and>
          completeMatch ieeeEqual (RealParam 0x3FF0000000000000) p')"
  using paramToImmediate_round_trip [of "IntParam (- 5)" "IntType 8" ieeeEqual]
    paramToImmediate_round_trip [of "RealParam 0x3FF0000000000000" "RealType 32" ieeeEqual]
  by (simp add: toFloat_def toDouble_def roundHalfEven_def ieeeEqual_def isNaN_def)

section \<open>Properties of the folding engine\<close>

lemmas fold_eval =
  Param_fold_def handleParamCast_def hasTypePtr_def hasParamPtr_def isUnknown_def
  paramToImmediate_def bindE_def deref_def getImmediateValueOrEmpty_def
  intCase_def uintCase_def asIntParam_def asUintParam_def
  fold_constant_def foldResult_def foldInteger_def foldIntegerUnary_def
  coerce_immediate_def integerValue_def outsideModel_def

lemma paramToImmediate_failure:
  "paramToImmediate (Some p) (Some t) = Inl e \<Longrightarrow> \<exists>msg. e = AssertionFailure msg"
  by (cases p; cases t)
     (auto simp add: paramToImmediate_def bindE_def deref_def complexCase_def intCase_def
        realCase_def stringCase_def uintCase_def Let_def split: if_splits)

text \<open>
  C7. \<^verbatim>\<open>isParamOpFoldable\<close> holds of exactly the twenty-five listed operators. In
  \<^verbatim>\<open>Param::fold\<close>, whatever the evaluator, a cast on a well-formed first operand is
  \<^verbatim>\<open>handleParamCast\<close> and never meets the check (which the cast operator would
  fail), and every other operator outside the list ends in a failed assertion, on a
  well-formed first operand the assertion \<^verbatim>\<open>param primitive op not foldable\<close>.
\<close>

theorem foldable_operators:
  "(isParamOpFoldable op \<longleftrightarrow>
      op \<in> {P_prim_pow, P_prim_mult, P_prim_div, P_prim_mod, P_prim_add, P_prim_subtract,
            P_prim_lsh, P_prim_rsh, P_prim_less, P_prim_lessorequal, P_prim_greater,
            P_prim_greaterorequal, P_prim_equal, P_prim_notequal, P_prim_and, P_prim_xor,
            P_prim_or, P_prim_land, P_prim_lor, P_prim_plus, P_prim_minus, P_prim_not,
            P_prim_lnot, P_prim_abs, P_prim_sqrt}) \<and>
   (hasTypePtr a \<and> hasParamPtr a \<and> paramToImmediate (qt_param a) (qt_type a) = Inr aImm
      \<longrightarrow> Param_fold foldConstant coerceImmediate PRIM_CAST a b =
            handleParamCast coerceImmediate a b) \<and>
   (op \<noteq> PRIM_CAST \<and> \<not> isParamOpFoldable op
      \<longrightarrow> (\<exists>msg. Param_fold foldConstant coerceImmediate op a b = Inl (AssertionFailure msg))) \<and>
   (op \<noteq> PRIM_CAST \<and> \<not> isParamOpFoldable op \<and>
    hasTypePtr a \<and> hasParamPtr a \<and> paramToImmediate (qt_param a) (qt_type a) = Inr aImm
      \<longrightarrow> Param_fold foldConstant coerceImmediate op a b =
            Inl (AssertionFailure ''param primitive op not foldable''))"
proof (intro conjI impI)
  show "isParamOpFoldable op \<longleftrightarrow>
      op \<in> {P_prim_pow, P_prim_mult, P_prim_div, P_prim_mod, P_prim_add, P_prim_subtract,
            P_prim_lsh, P_prim_rsh, P_prim_less, P_prim_lessorequal, P_prim_greater,
            P_prim_greaterorequal, P_prim_equal, P_prim_notequal, P_prim_and, P_prim_xor,
            P_prim_or, P_prim_land, P_prim_lor, P_prim_plus, P_prim_minus, P_prim_not,
            P_prim_lnot, P_prim_abs, P_prim_sqrt}"
    by (cases op) simp_all
next
  assume "hasTypePtr a \<and> hasParamPtr a \<and> paramToImmediate (qt_param a) (qt_type a) = Inr aImm"
  then show "Param_fold foldConstant coerceImmediate PRIM_CAST a b =
            handleParamCast coerceImmediate a b"
    by (simp add: Param_fold_def bindE_def)
next
  assume h: "op \<noteq> PRIM_CAST \<and> \<not> isParamOpFoldable op"
  show "\<exists>msg. Param_fold foldConstant coerceImmediate op a b = Inl (AssertionFailure msg)"
  proof (cases "hasTypePtr a \<and> hasParamPtr a")
    case False
    then show ?thesis by (auto simp add: Param_fold_def)
  next
    case True
    then obtain p t where pt: "qt_param a = Some p" "qt_type a = Some t"
      by (auto simp add: hasTypePtr_def hasParamPtr_def)
    show ?thesis
    proof (cases "paramToImmediate (Some p) (Some t)")
      case (Inl e)
      with paramToImmediate_failure obtain msg where "e = AssertionFailure msg" by blast
      with Inl True pt show ?thesis by (simp add: Param_fold_def bindE_def)
    next
      case (Inr aImm)
      with True pt h show ?thesis by (simp add: Param_fold_def bindE_def)
    qed
  qed
next
  assume "op \<noteq> PRIM_CAST \<and> \<not> isParamOpFoldable op \<and>
    hasTypePtr a \<and> hasParamPtr a \<and> paramToImmediate (qt_param a) (qt_type a) = Inr aImm"
  then show "Param_fold foldConstant coerceImmediate op a b =
            Inl (AssertionFailure ''param primitive op not foldable'')"
    by (simp add: Param_fold_def bindE_def)
qed

theorem foldable_operators_witness:
  "isParamOpFoldable P_prim_add \<and> \<not> isParamOpFoldable PRIM_CAST \<and>
   \<not> isParamOpFoldable (PRIM_OTHER 0) \<and>
   Param_fold fold_constant coerce_immediate PRIM_CAST
     \<lparr>qt_kind = PARAM, qt_type = Some (IntType 64), qt_param = Some (IntParam 300)\<rparr>
     \<lparr>qt_kind = UNKNOWN, qt_type = Some (IntType 8), qt_param = None\<rparr> =
   Inr \<lparr>qt_kind = PARAM, qt_type = Some (IntType 8), qt_param = Some (IntParam 44)\<rparr> \<and>
   Param_fold fold_constant coerce_immediate (PRIM_OTHER 0)
     \<lparr>qt_kind = PARAM, qt_type = Some (IntType 64), qt_param = Some (IntParam 300)\<rparr>
     \<lparr>qt_kind = PARAM, qt_type = Some (IntType 64), qt_param = Some (IntParam 1)\<rparr> =
   Inl (AssertionFailure ''param primitive op not foldable'')"
  using
    foldable_operators [of P_prim_add]
    foldable_operators [of "PRIM_OTHER 0"
      "\<lparr>qt_kind = PARAM, qt_type = Some (IntType 64), qt_param = Some (IntParam 300)\<rparr>"
      "Imm_int64 300" fold_constant coerce_immediate
      "\<lparr>qt_kind = UNKNOWN, qt_type = Some (IntType 8), qt_param = None\<rparr>"]
    foldable_operators [of "PRIM_OTHER 0"
      "\<lparr>qt_kind = PARAM, qt_type = Some (IntType 64), qt_param = Some (IntParam 300)\<rparr>"
      "Imm_int64 300" fold_constant coerce_immediate
      "\<lparr>qt_kind = PARAM, qt_type = Some (IntType 64), qt_param = Some (IntParam 1)\<rparr>"]
  by (simp add: fold_eval)

text \<open>
  C10. Whatever the evaluator does, a \<^verbatim>\<open>QualifiedType\<close> that \<^verbatim>\<open>Param::fold\<close> or
  \<^verbatim>\<open>handleParamCast\<close> returns has the qualifier \<^verbatim>\<open>PARAM\<close> and holds the type and
  the param, neither null, that \<^verbatim>\<open>immediateToParam\<close> made from an immediate.
\<close>

theorem fold_result_is_param:
  "(Param_fold foldConstant coerceImmediate op a b = Inr q
      \<longrightarrow> qt_kind q = PARAM \<and>
          (\<exists>imm p t. immediateToParam imm = Inr (p, t) \<and>
                     qt_type q = Some t \<and> qt_param q = Some p)) \<and>
   (handleParamCast coerceImmediate a b = Inr q
      \<longrightarrow> qt_kind q = PARAM \<and>
          (\<exists>imm p t. immediateToParam imm = Inr (p, t) \<and>
                     qt_type q = Some t \<and> qt_param q = Some p))"
proof -
  have cast: "qt_kind r = PARAM \<and>
          (\<exists>imm p t. immediateToParam imm = Inr (p, t) \<and>
                     qt_type r = Some t \<and> qt_param r = Some p)"
    if "handleParamCast coerceImmediate a b = Inr r" for r
    using that
    by (auto simp add: handleParamCast_def bindE_def split: sum.splits)
  have gen: "qt_kind q = PARAM \<and>
          (\<exists>imm p t. immediateToParam imm = Inr (p, t) \<and>
                     qt_type q = Some t \<and> qt_param q = Some p)"
    if "Param_fold foldConstant coerceImmediate op a b = Inr q"
  proof (cases "op = PRIM_CAST")
    case True
    with that have "handleParamCast coerceImmediate a b = Inr q"
      by (auto simp add: Param_fold_def bindE_def split: sum.splits if_splits)
    then show ?thesis by (rule cast)
  next
    case False
    with that show ?thesis
      by (auto simp add: Param_fold_def bindE_def split: sum.splits if_splits)
  qed
  from cast gen show ?thesis by blast
qed

theorem fold_result_is_param_witness:
  "Param_fold fold_constant coerce_immediate P_prim_less
     \<lparr>qt_kind = PARAM, qt_type = Some (UintType 16), qt_param = Some (UintParam 3)\<rparr>
     \<lparr>qt_kind = PARAM, qt_type = Some (UintType 16), qt_param = Some (UintParam 4)\<rparr> =
   Inr \<lparr>qt_kind = PARAM, qt_type = Some BoolType, qt_param = Some (BoolParam True)\<rparr> \<and>
   handleParamCast coerce_immediate
     \<lparr>qt_kind = PARAM, qt_type = Some (IntType 64), qt_param = Some (IntParam 300)\<rparr>
     \<lparr>qt_kind = UNKNOWN, qt_type = Some (IntType 8), qt_param = None\<rparr> =
   Inr \<lparr>qt_kind = PARAM, qt_type = Some (IntType 8), qt_param = Some (IntParam 44)\<rparr> \<and>
   immediateToParam (Imm_bool True) = Inr (BoolParam True, BoolType) \<and>
   immediateToParam (Imm_int8 44) = Inr (IntParam 44, IntType 8)"
  using
    fold_result_is_param [of fold_constant coerce_immediate P_prim_less
      "\<lparr>qt_kind = PARAM, qt_type = Some (UintType 16), qt_param = Some (UintParam 3)\<rparr>"
      "\<lparr>qt_kind = PARAM, qt_type = Some (UintType 16), qt_param = Some (UintParam 4)\<rparr>"
      "\<lparr>qt_kind = PARAM, qt_type = Some BoolType, qt_param = Some (BoolParam True)\<rparr>"]
    fold_result_is_param [of fold_constant coerce_immediate P_prim_less
      "\<lparr>qt_kind = PARAM, qt_type = Some (IntType 64), qt_param = Some (IntParam 300)\<rparr>"
      "\<lparr>qt_kind = UNKNOWN, qt_type = Some (IntType 8), qt_param = None\<rparr>"
      "\<lparr>qt_kind = PARAM, qt_type = Some (IntType 8), qt_param = Some (IntParam 44)\<rparr>"]
  by (simp add: fold_eval)

text \<open>
  C3. Under the evaluator modelled from the spec, \<^verbatim>\<open>Param::fold\<close> of a division or
  modulo whose second operand is the integer zero of the first operand's type is an
  evaluator error, for every dividend and width, signed or unsigned; no
  \<^verbatim>\<open>QualifiedType\<close> is returned.
\<close>

theorem fold_division_by_zero:
  "(op = P_prim_div \<or> op = P_prim_mod) \<and> (w = 8 \<or> w = 16 \<or> w = 32 \<or> w = 64) \<longrightarrow>
   (\<exists>msg.
      Param_fold fold_constant coerce_immediate op
        \<lparr>qt_kind = PARAM, qt_type = Some (IntType w), qt_param = Some (IntParam x)\<rparr>
        \<lparr>qt_kind = PARAM, qt_type = Some (IntType w), qt_param = Some (IntParam 0)\<rparr> =
      Inl (EvaluatorError msg) \<and>
      Param_fold fold_constant coerce_immediate op
        \<lparr>qt_kind = PARAM, qt_type = Some (UintType w), qt_param = Some (UintParam x)\<rparr>
        \<lparr>qt_kind = PARAM, qt_type = Some (UintType w), qt_param = Some (UintParam 0)\<rparr> =
      Inl (EvaluatorError msg) \<and>
      msg = (if op = P_prim_div then ''division by zero'' else ''modulus by zero''))"
  by (auto simp add: fold_eval)

theorem fold_division_by_zero_witness:
  "Param_fold fold_constant coerce_immediate P_prim_div
     \<lparr>qt_kind = PARAM, qt_type = Some (IntType 32), qt_param = Some (IntParam 7)\<rparr>
     \<lparr>qt_kind = PARAM, qt_type = Some (IntType 32), qt_param = Some (IntParam 0)\<rparr> =
   Inl (EvaluatorError ''division by zero'')"
  using fold_division_by_zero [of P_prim_div 32 7]
  by simp

text \<open>
  C4. Under the evaluator modelled from the spec, \<^verbatim>\<open>fold(ADD, (int8, 100), (int8,
  100))\<close> is the \<^verbatim>\<open>int8\<close> param -56; in general the sum of two \<^verbatim>\<open>int8\<close>
  operands is computed in 8 bits and wraps in two's complement, and the sums of
  wider operands are computed in 16, 32 and 64 bits.
\<close>

theorem fold_add_int8_wraps:
  "Param_fold fold_constant coerce_immediate P_prim_add
     \<lparr>qt_kind = PARAM, qt_type = Some (IntType 8), qt_param = Some (IntParam 100)\<rparr>
     \<lparr>qt_kind = PARAM, qt_type = Some (IntType 8), qt_param = Some (IntParam 100)\<rparr> =
   Inr \<lparr>qt_kind = PARAM, qt_type = Some (IntType 8), qt_param = Some (IntParam (- 56))\<rparr> \<and>
   sint (- 56 :: 64 word) = - 56 \<and>
   Param_fold fold_constant coerce_immediate P_prim_add
     \<lparr>qt_kind = PARAM, qt_type = Some (IntType 8), qt_param = Some (IntParam x)\<rparr>
     \<lparr>qt_kind = PARAM, qt_type = Some (IntType 8), qt_param = Some (IntParam y)\<rparr> =
   Inr \<lparr>qt_kind = PARAM, qt_type = Some (IntType 8),
        qt_param = Some (IntParam (scast (ucast x + ucast y :: 8 word)))\<rparr> \<and>
   sint (scast (ucast x + ucast y :: 8 word) :: 64 word) =
     signed_take_bit 7 (sint x + sint y) \<and>
   Param_fold fold_constant coerce_immediate P_prim_add
     \<lparr>qt_kind = PARAM, qt_type = Some (IntType 16), qt_param = Some (IntParam x)\<rparr>
     \<lparr>qt_kind = PARAM, qt_type = Some (IntType 16), qt_param = Some (IntParam y)\<rparr> =
   Inr \<lparr>qt_kind = PARAM, qt_type = Some (IntType 16),
        qt_param = Some (IntParam (scast (ucast x + ucast y :: 16 word)))\<rparr> \<and>
   Param_fold fold_constant coerce_immediate P_prim_add
     \<lparr>qt_kind = PARAM, qt_type = Some (IntType 32), qt_param = Some (IntParam x)\<rparr>
     \<lparr>qt_kind = PARAM, qt_type = Some (IntType 32), qt_param = Some (IntParam y)\<rparr> =
   Inr \<lparr>qt_kind = PARAM, qt_type = Some (IntType 32),
        qt_param = Some (IntParam (scast (ucast x + ucast y :: 32 word)))\<rparr> \<and>
   Param_fold fold_constant coerce_immediate P_prim_add
     \<lparr>qt_kind = PARAM, qt_type = Some (IntType 64), qt_param = Some (IntParam x)\<rparr>
     \<lparr>qt_kind = PARAM, qt_type = Some (IntType 64), qt_param = Some (IntParam y)\<rparr> =
   Inr \<lparr>qt_kind = PARAM, qt_type = Some (IntType 64), qt_param = Some (IntParam (x + y))\<rparr>"
proof -
  have "sint (scast (ucast x + ucast y :: 8 word) :: 64 word) =
     signed_take_bit 7 (sint x + sint y)"
    by (rule sint_add_8)
  then show ?thesis
    by (simp add: fold_eval)
qed

section \<open>Properties of interning\<close>

lemma getParam_hit:
  "map_of (instances ctx) v = Some inst \<Longrightarrow> getParam ctx v = (inst, ctx)"
  by (simp add: getParam_def)

lemma getParam_keeps:
  "map_of (instances ctx) v = Some inst \<Longrightarrow>
   map_of (instances (snd (getParam ctx w))) v = Some inst"
  by (auto simp add: getParam_def Let_def split: option.splits)

lemma getParam_records:
  "getParam ctx v = (inst, ctx') \<Longrightarrow> map_of (instances ctx') v = Some inst"
  by (auto simp add: getParam_def Let_def map_add_def split: option.splits)

lemma getParams_keeps:
  "map_of (instances ctx) v = Some inst \<Longrightarrow>
   map_of (instances (getParams ctx vs)) v = Some inst"
  by (induction vs arbitrary: ctx) (simp_all add: getParam_keeps)

text \<open>
  C9. In the interning table modelled from the spec: once a getter has returned an
  instance for a value, every later call with that value, directly or after any
  requests for other values, returns the same instance and leaves the context as it
  found it.
\<close>

theorem getParam_idempotent:
  "getParam ctx v = (inst, ctx') \<longrightarrow>
     getParam ctx' v = (inst, ctx') \<and>
     getParam (getParams ctx' vs) v = (inst, getParams ctx' vs)"
  by (blast intro: getParam_hit getParams_keeps getParam_records)

theorem getParam_idempotent_witness:
  "getParam \<lparr>instances = []\<rparr> (IntParam 5) = (0, \<lparr>instances = [(IntParam 5, 0)]\<rparr>) \<and>
   getParam \<lparr>instances = [(IntParam 5, 0)]\<rparr> (IntParam 5) =
     (0, \<lparr>instances = [(IntParam 5, 0)]\<rparr>) \<and>
   getParam (getParams \<lparr>instances = [(IntParam 5, 0)]\<rparr> [UintParam 5, IntParam 7])
     (IntParam 5) =
     (0, \<lparr>instances = [(IntParam 5, 0), (UintParam 5, 1), (IntParam 7, 2)]\<rparr>)"
  using getParam_idempotent [of "\<lparr>instances = []\<rparr>" "IntParam 5" 0
      "\<lparr>instances = [(IntParam 5, 0)]\<rparr>" "[UintParam 5, IntParam 7]"]
  by (simp add: getParam_def)

end
